theory Spec2Isabelle
  imports Main "HOL-Library.Word"
begin

section \<open>Threshold EdDSA wallet orchestration (cb-mpc Solana demos)\<close>

text \<open>
  The Go programs of the repository drive an MPC library (\<^verbatim>\<open>cb-mpc-go/api/mpc\<close>,
  \<^verbatim>\<open>api/curve\<close>, \<^verbatim>\<open>api/transport/mocknet\<close>) and a few external packages
  (\<^verbatim>\<open>pbkdf2\<close>, \<^verbatim>\<open>base64\<close>). The orchestration code is embedded function by
  function; every call that leaves the programs goes through a record of functions
  (\<open>mpc_lib\<close>), so that a theorem quantified over that record holds for every behaviour
  of the library, of the network and of the peers.
\<close>

subsection \<open>Bytes and errors\<close>

type_synonym byte = "8 word"
type_synonym bytes = "byte list"

text \<open>Go's \<^verbatim>\<open>[]byte(s)\<close> for a string \<open>s\<close>.\<close>

definition bytes_of_string :: "string \<Rightarrow> bytes" where
  "bytes_of_string s = map of_char s"

text \<open>
  Go's \<^verbatim>\<open>error\<close> values. \<open>Errorf fmt args cause\<close> is
  \<^verbatim>\<open>fmt.Errorf(fmt, args..., cause)\<close>: the format string, its integer arguments and
  the error it formats or wraps. \<open>LibError\<close> is an error coming out of a library call;
  \<open>UnauthorizedQuorum\<close> is the library failure that section 7 of the specification names.
\<close>

datatype error =
    UnauthorizedQuorum
  | LibError string
  | Errorf string "nat list" "error option"

subsection \<open>Access structure\<close>

text \<open>
  \<^verbatim>\<open>mpc.Leaf(name)\<close> and \<^verbatim>\<open>mpc.Threshold(label, k, children...)\<close> build the
  nodes of the policy tree; \<^verbatim>\<open>mpc.AccessStructure{Root, Curve}\<close> is the policy.
\<close>

datatype Curve = Ed25519

datatype AccessNode =
    Leaf string
  | Threshold string int "AccessNode list"

record AccessStructure =
  Root :: AccessNode
  Curve :: Curve

text \<open>
  \<^verbatim>\<open>createThresholdAccessStructure\<close> (the same function in the wallet generator and
  in the complete demo): one leaf per party name, in order, under one threshold root with
  the empty label.
\<close>

definition createThresholdAccessStructure ::
  "string list \<Rightarrow> int \<Rightarrow> Curve \<Rightarrow> AccessStructure" where
  "createThresholdAccessStructure partyNames threshold cv =
     (let leaves = map Leaf partyNames;
          root = Threshold '''' threshold leaves
      in \<lparr>Root = root, Curve = cv\<rparr>)"

text \<open>
  Modelled from the spec: the \<open>satisfies\<close> predicate of the access structure is evaluated
  inside the MPC library, which is not among the sources. Section 3: a Threshold node is
  satisfied when at least \<open>k\<close> of its children are satisfied by \<open>S\<close>; a Leaf is satisfied
  iff its party is in \<open>S\<close>. A name subset is a Go \<^verbatim>\<open>[]string\<close>.
\<close>

fun satisfies :: "AccessNode \<Rightarrow> string list \<Rightarrow> bool" where
  "satisfies (Leaf party_name) S = (party_name \<in> set S)"
| "satisfies (Threshold label k children) S =
     (k \<le> int (length (filter (\<lambda>c. satisfies c S) children)))"

subsection \<open>The library boundary\<close>

text \<open>
  \<^verbatim>\<open>mocknet.NewMockNetwork(n)\<close> returns \<open>n\<close> in-process messengers, one per party
  index.
\<close>

datatype Messenger = MockMessenger nat nat

definition NewMockNetwork :: "nat \<Rightarrow> Messenger list" where
  "NewMockNetwork n = map (MockMessenger n) [0..<n]"

text \<open>A job (session) as \<^verbatim>\<open>mpc.NewJobMP(messenger, nParties, index, names)\<close> binds it.\<close>

record JobMP =
  job_messenger :: Messenger
  job_nParties :: nat
  job_index :: nat
  job_pnames :: "string list"

text \<open>The request and response structs of the protocol calls.\<close>

record 'k EDDSAMPCSignRequest =
  KeyShare :: 'k
  Message :: bytes
  SignatureReceiver :: nat

record EDDSAMPCSignResponse =
  Signature :: bytes

record EDDSAMPCThresholdDKGRequest =
  DKG_Curve :: Curve
  DKG_AccessStructure :: AccessStructure

record 'k EDDSAMPCThresholdDKGResponse =
  DKG_KeyShare :: 'k

record EDDSAMPCKeyGenRequest =
  KeyGen_Curve :: Curve

record 'k EDDSAMPCKeyGenResponse =
  KeyGen_KeyShare :: 'k

text \<open>
  Everything the programs call outside their own files. \<open>'k\<close> is the opaque
  \<^verbatim>\<open>mpc.EDDSAMPCKey\<close> (threshold and additive shares have the same Go type), \<open>'p\<close> a curve
  point, \<open>'tx\<close> a \<^verbatim>\<open>solana.Transaction\<close>. A protocol call of one party returns what
  that party's call returns in the run at hand: the peers, the network and the library's
  randomness are part of the record. \<open>zero_EDDSAMPCKey\<close> is the zero value that
  \<^verbatim>\<open>make([]mpc.EDDSAMPCKey, n)\<close> fills a slice with. \<open>pbkdf2_Key pw salt iter keyLen\<close>
  is \<^verbatim>\<open>pbkdf2.Key(pw, salt, iter, keyLen, sha256.New)\<close>; \<open>base64_DecodeString\<close>
  returns the decoded bytes together with the error, as Go does.
\<close>

record ('k, 'p, 'tx) mpc_lib =
  pbkdf2_Key :: "bytes \<Rightarrow> bytes \<Rightarrow> nat \<Rightarrow> nat \<Rightarrow> bytes"
  base64_DecodeString :: "string \<Rightarrow> bytes \<times> error option"
  base64_EncodeToString :: "bytes \<Rightarrow> string"
  NewEd25519 :: "error + Curve"
  zero_EDDSAMPCKey :: 'k
  UnmarshalBinary :: "bytes \<Rightarrow> error + 'k"
  MarshalBinary :: "'k \<Rightarrow> error + bytes"
  ToAdditiveShare :: "'k \<Rightarrow> AccessStructure \<Rightarrow> string list \<Rightarrow> error + 'k"
  Q :: "'k \<Rightarrow> error + 'p"
  GetX :: "'p \<Rightarrow> bytes"
  NewJobMP :: "Messenger \<Rightarrow> nat \<Rightarrow> nat \<Rightarrow> string list \<Rightarrow> error + JobMP"
  EDDSAMPCThresholdDKG ::
    "JobMP \<Rightarrow> EDDSAMPCThresholdDKGRequest \<Rightarrow> error + 'k EDDSAMPCThresholdDKGResponse"
  EDDSAMPCKeyGen :: "JobMP \<Rightarrow> EDDSAMPCKeyGenRequest \<Rightarrow> error + 'k EDDSAMPCKeyGenResponse"
  EDDSAMPCSign :: "JobMP \<Rightarrow> 'k EDDSAMPCSignRequest \<Rightarrow> error + EDDSAMPCSignResponse"
  Message_MarshalBinary :: "'tx \<Rightarrow> error + bytes"

text \<open>
  \<^verbatim>\<open>errgroup.Group\<close>: the goroutines run concurrently, each returns an error or nil,
  and \<^verbatim>\<open>Wait\<close> returns the first non-nil error once all have returned. A run is given
  by the order in which the goroutines return (a schedule: for \<open>n\<close> tasks, a permutation
  of \<open>[0..<n]\<close>); each goroutine's writes to the shared variables happen when it returns.
\<close>

definition is_schedule :: "nat \<Rightarrow> nat list \<Rightarrow> bool" where
  "is_schedule n sched = (sort sched = [0..<n])"

definition eg_return :: "error \<Rightarrow> error option \<Rightarrow> error option" where
  "eg_return err first = (case first of None \<Rightarrow> Some err | Some e \<Rightarrow> Some e)"

subsection \<open>The complete demo: \<^verbatim>\<open>performMPCSigning\<close>\<close>

text \<open>
  The PIN-based derivation of \<^verbatim>\<open>performMPCSigning\<close>:
  \<^verbatim>\<open>pbkdf2.Key([]byte(pin), []byte("solana-mpc-salt"), 100000, 32, sha256.New)\<close>.
\<close>

definition derive_s3KeyBytes :: "('k, 'p, 'tx) mpc_lib \<Rightarrow> string \<Rightarrow> bytes" where
  "derive_s3KeyBytes L pin =
     pbkdf2_Key L (bytes_of_string pin) (bytes_of_string ''solana-mpc-salt'') 100000 32"

text \<open>The variables the signing goroutines share: the signature and the group's error.\<close>

record sign_group =
  finalSignature :: bytes
  sign_eg_err :: "error option"

text \<open>The body of the goroutine of party \<open>partyIdx\<close>.\<close>

definition sign_goroutine ::
  "('k, 'p, 'tx) mpc_lib \<Rightarrow> Messenger list \<Rightarrow> string list \<Rightarrow> 'k list \<Rightarrow> bytes \<Rightarrow> nat \<Rightarrow>
   nat \<Rightarrow> sign_group \<Rightarrow> sign_group" where
  "sign_goroutine L messengers partyNames parties message signatureReceiver partyIdx g =
     (case NewJobMP L (messengers ! partyIdx) 3 partyIdx partyNames of
        Inl err \<Rightarrow> g\<lparr>sign_eg_err := eg_return err (sign_eg_err g)\<rparr>
      | Inr job \<Rightarrow>
          (let req = \<lparr>KeyShare = parties ! partyIdx, Message = message,
                      SignatureReceiver = signatureReceiver\<rparr>
           in case EDDSAMPCSign L job req of
                Inl err \<Rightarrow> g\<lparr>sign_eg_err := eg_return err (sign_eg_err g)\<rparr>
              | Inr resp \<Rightarrow>
                  if partyIdx = signatureReceiver
                  then g\<lparr>finalSignature := Signature resp\<rparr>
                  else g))"

text \<open>
  Steps 4 and 5: the mock network, the goroutines (in the order \<open>sched\<close> in which they
  return), \<^verbatim>\<open>eg.Wait()\<close> and the final test of the signature.
\<close>

definition run_signing ::
  "('k, 'p, 'tx) mpc_lib \<Rightarrow> nat list \<Rightarrow> string list \<Rightarrow> 'k list \<Rightarrow> bytes \<Rightarrow> error + bytes" where
  "run_signing L sched partyNames parties message =
     (let nQuorumParties = length parties;
          messengers = NewMockNetwork nQuorumParties;
          signatureReceiver = 0;
          g = fold (sign_goroutine L messengers partyNames parties message signatureReceiver)
                sched \<lparr>finalSignature = [], sign_eg_err = None\<rparr>
      in case sign_eg_err g of
           Some err \<Rightarrow> Inl err
         | None \<Rightarrow>
             if length (finalSignature g) = 0
             then Inl (Errorf ''MPC signing did not produce a signature'' [] None)
             else Inr (finalSignature g))"

text \<open>
  The function, with its local constants \<open>s1ShareData\<close>, \<open>s3ShareData\<close>, \<open>pin\<close> and
  \<open>quorum\<close> as arguments. The result of \<^verbatim>\<open>base64.StdEncoding.DecodeString\<close> is used
  without its error; \<open>s3KeyBytes\<close> is bound and dropped (\<^verbatim>\<open>_ = s3KeyBytes\<close>).
\<close>

definition performMPCSigning_body ::
  "('k, 'p, 'tx) mpc_lib \<Rightarrow> nat list \<Rightarrow> string \<Rightarrow> string \<Rightarrow> string \<Rightarrow> string list \<Rightarrow> bytes \<Rightarrow>
   error + bytes" where
  "performMPCSigning_body L sched s1ShareData s3ShareData pin quorum message =
     (let s3KeyBytes = derive_s3KeyBytes L pin;
          s1Bytes = fst (base64_DecodeString L s1ShareData)
      in case UnmarshalBinary L s1Bytes of
           Inl err \<Rightarrow> Inl (Errorf ''failed to unmarshal S1 key: %v'' [] (Some err))
         | Inr s1Key \<Rightarrow>
      (let s3Bytes = fst (base64_DecodeString L s3ShareData)
       in case UnmarshalBinary L s3Bytes of
            Inl err \<Rightarrow> Inl (Errorf ''failed to unmarshal S3 key: %v'' [] (Some err))
          | Inr s3Key \<Rightarrow>
      (case NewEd25519 L of
         Inl err \<Rightarrow> Inl (Errorf ''failed to create ed25519 curve: %w'' [] (Some err))
       | Inr ed25519Curve \<Rightarrow>
      (let partyNames = [''server'', ''kms'', ''pin''];
           ac = createThresholdAccessStructure partyNames 2 ed25519Curve
       in case ToAdditiveShare L s1Key ac quorum of
            Inl err \<Rightarrow>
              Inl (Errorf ''could not convert s1 to additive share: %w'' [] (Some err))
          | Inr s1Add \<Rightarrow>
      (case ToAdditiveShare L s3Key ac quorum of
         Inl err \<Rightarrow>
           Inl (Errorf ''could not convert s3 to additive share: %w'' [] (Some err))
       | Inr s3Add \<Rightarrow>
           run_signing L sched partyNames [s1Add, s3Add] message)))))"

definition s1ShareData :: string where
  "s1ShareData = ''C38CAQL/gAABCgAA/8//gAAFIUAETBk4pw5y7alm+X5UP7hPziJAXIhf8hCftmaQZUyNVCIEP2QwSWMH23FqBDlq1D4TFFqGbsH/XgIk9lLvMszRyNQveQMAA2ttcwQ/GHAvcj73nnFPLMRzCy5Unz/5hi/gOL5uomjzHRVg7PwAA3BpbgQ/NP2vVIR1vMVj2iiaoqN4/11qVHicoUnuINc10l9aS7YABnNlcnZlcgQ/UjqDrXbXxPevCnMV+0n6bLgsOigPjFI/7TOPtmnxsc0CBD8IAAZzZXJ2ZXI=''"

definition s3ShareData :: string where
  "s3ShareData = ''C38CAQL/gAABCgAA/8v/gAAFID6kgSsOwCJxO/JIKThC7euhljaiBhroWu6eeWSf3bbQIgQ/ZDBJYwfbcWoEOWrUPhMUWoZuwf9eAiT2Uu8yzNHI1C95AwADa21zBD8YcC9yPveecU8sxHMLLlSfP/mGL+A4vm6iaPMdFWDs/AADcGluBD80/a9UhHW8xWPaKJqio3j/XWpUeJyhSe4g1zXSX1pLtgAGc2VydmVyBD9SOoOtdtfE968KcxX7SfpsuCw6KA+MUj/tM4+2afGxzQIEPwUAA3Bpbg==''"

definition performMPCSigning ::
  "('k, 'p, 'tx) mpc_lib \<Rightarrow> nat list \<Rightarrow> bytes \<Rightarrow> error + bytes" where
  "performMPCSigning L sched message =
     performMPCSigning_body L sched s1ShareData s3ShareData ''123456'' [''server'', ''pin'']
       message"

subsection \<open>The wallet generator: \<^verbatim>\<open>main\<close>\<close>

text \<open>The variables the key-generation goroutines share.\<close>

record 'k dkg_group =
  dkg_keyShares :: "'k list"
  dkg_eg_err :: "error option"

definition dkg_goroutine ::
  "('k, 'p, 'tx) mpc_lib \<Rightarrow> Messenger list \<Rightarrow> nat \<Rightarrow> string list \<Rightarrow> Curve \<Rightarrow> AccessStructure \<Rightarrow>
   nat \<Rightarrow> 'k dkg_group \<Rightarrow> 'k dkg_group" where
  "dkg_goroutine L messengers nParties partyNames ed25519Curve accessStructure partyIdx g =
     (case NewJobMP L (messengers ! partyIdx) nParties partyIdx partyNames of
        Inl err \<Rightarrow>
          g\<lparr>dkg_eg_err :=
              eg_return (Errorf ''party %d job creation failed: %w'' [partyIdx] (Some err))
                (dkg_eg_err g)\<rparr>
      | Inr job \<Rightarrow>
          (let req = \<lparr>DKG_Curve = ed25519Curve, DKG_AccessStructure = accessStructure\<rparr>
           in case EDDSAMPCThresholdDKG L job req of
                Inl err \<Rightarrow>
                  g\<lparr>dkg_eg_err :=
                      eg_return (Errorf ''party %d DKG failed: %w'' [partyIdx] (Some err))
                        (dkg_eg_err g)\<rparr>
              | Inr resp \<Rightarrow> g\<lparr>dkg_keyShares := (dkg_keyShares g)[partyIdx := DKG_KeyShare resp]\<rparr>))"

text \<open>What the generator prints on success: the address, the public key and the shares.\<close>

record generated_wallet =
  out_solanaAddress :: bytes
  out_publicKeyBytes :: bytes
  out_s1Base64 :: string
  out_s2Base64 :: string
  out_s3Base64 :: string

text \<open>
  \<^verbatim>\<open>main\<close> of the wallet generator; \<open>Inl\<close> is the message of the \<^verbatim>\<open>log.Fatal\<close>
  that ends the process.
\<close>

definition wallet_generator_main ::
  "('k, 'p, 'tx) mpc_lib \<Rightarrow> nat list \<Rightarrow> error + generated_wallet" where
  "wallet_generator_main L sched =
     (let nParties = 3;
          threshold = 2;
          partyNames = [''server'', ''kms'', ''pin'']
      in case NewEd25519 L of
           Inl err \<Rightarrow> Inl (Errorf ''Failed to create Ed25519 curve:'' [] (Some err))
         | Inr ed25519Curve \<Rightarrow>
      (let messengers = NewMockNetwork nParties;
           accessStructure = createThresholdAccessStructure partyNames threshold ed25519Curve;
           g = fold (dkg_goroutine L messengers nParties partyNames ed25519Curve
                       accessStructure)
                 sched \<lparr>dkg_keyShares = replicate nParties (zero_EDDSAMPCKey L), dkg_eg_err = None\<rparr>
       in case dkg_eg_err g of
            Some err \<Rightarrow> Inl (Errorf ''DKG protocol failed: %v'' [] (Some err))
          | None \<Rightarrow>
      (case Q L (dkg_keyShares g ! 0) of
         Inl err \<Rightarrow> Inl (Errorf ''Failed to extract public key:'' [] (Some err))
       | Inr publicKeyPoint \<Rightarrow>
      (let publicKeyBytes = GetX L publicKeyPoint
       in if length publicKeyBytes \<noteq> 32
          then Inl (Errorf ''Invalid Ed25519 public key length: got %d, expected %d''
                      [length publicKeyBytes, 32] None)
          else
      (case MarshalBinary L (dkg_keyShares g ! 0) of
         Inl err \<Rightarrow> Inl (Errorf ''Failed to marshal S1 share:'' [] (Some err))
       | Inr s1Data \<Rightarrow>
      (case MarshalBinary L (dkg_keyShares g ! 1) of
         Inl err \<Rightarrow> Inl (Errorf ''Failed to marshal S2 share:'' [] (Some err))
       | Inr s2Data \<Rightarrow>
      (case MarshalBinary L (dkg_keyShares g ! 2) of
         Inl err \<Rightarrow> Inl (Errorf ''Failed to marshal S3 share:'' [] (Some err))
       | Inr s3Data \<Rightarrow>
           Inr \<lparr>out_solanaAddress = publicKeyBytes,
                out_publicKeyBytes = publicKeyBytes,
                out_s1Base64 = base64_EncodeToString L s1Data,
                out_s2Base64 = base64_EncodeToString L s2Data,
                out_s3Base64 = base64_EncodeToString L s3Data\<rparr>)))))))"

text \<open>
  \<^verbatim>\<open>main\<close> of the wallet generator up to its step 5: the address and the public key
  that it has printed (\<^verbatim>\<open>solanaAddress\<close> and \<^verbatim>\<open>publicKeyBytes\<close>) when it
  starts to serialise the shares. A later failure of \<^verbatim>\<open>MarshalBinary\<close> ends the
  process after these two lines were printed.
\<close>

definition wallet_generator_key ::
  "('k, 'p, 'tx) mpc_lib \<Rightarrow> nat list \<Rightarrow> error + bytes \<times> bytes" where
  "wallet_generator_key L sched =
     (let nParties = 3;
          threshold = 2;
          partyNames = [''server'', ''kms'', ''pin'']
      in case NewEd25519 L of
           Inl err \<Rightarrow> Inl (Errorf ''Failed to create Ed25519 curve:'' [] (Some err))
         | Inr ed25519Curve \<Rightarrow>
      (let messengers = NewMockNetwork nParties;
           accessStructure = createThresholdAccessStructure partyNames threshold ed25519Curve;
           g = fold (dkg_goroutine L messengers nParties partyNames ed25519Curve
                       accessStructure)
                 sched \<lparr>dkg_keyShares = replicate nParties (zero_EDDSAMPCKey L), dkg_eg_err = None\<rparr>
       in case dkg_eg_err g of
            Some err \<Rightarrow> Inl (Errorf ''DKG protocol failed: %v'' [] (Some err))
          | None \<Rightarrow>
      (case Q L (dkg_keyShares g ! 0) of
         Inl err \<Rightarrow> Inl (Errorf ''Failed to extract public key:'' [] (Some err))
       | Inr publicKeyPoint \<Rightarrow>
      (let publicKeyBytes = GetX L publicKeyPoint
       in if length publicKeyBytes \<noteq> 32
          then Inl (Errorf ''Invalid Ed25519 public key length: got %d, expected %d''
                      [length publicKeyBytes, 32] None)
          else (let solanaAddress = publicKeyBytes
                in Inr (solanaAddress, publicKeyBytes))))))"

subsection \<open>The real transfer: \<^verbatim>\<open>signWithMPC\<close>\<close>

text \<open>
  The package-level constants of the transfer program, which every function of the
  package can read (\<^verbatim>\<open>TransferAmount\<close>, a floating-point constant, is left out).
\<close>

record transfer_consts =
  PINSalt :: string
  PBKDFIterations :: nat
  TestPIN :: string
  S1Share :: string
  MyWalletAddress :: string
  ToAddress_const :: string
  DevnetRPC :: string

record 'tx SolanaTransfer =
  FromAddress :: bytes
  ToAddress :: bytes
  Amount :: "64 word"
  Transaction :: 'tx
  MPCSignature :: bytes

record 'k keygenResult =
  keygen_idx :: nat
  keygen_keyShare :: 'k
  keygen_err :: "error option"

record signResult =
  sign_idx :: nat
  sign_signature :: bytes
  sign_err :: "error option"

text \<open>What the key-generation goroutine of party \<open>partyIdx\<close> sends on \<^verbatim>\<open>keygenCh\<close>.\<close>

definition keygen_goroutine ::
  "('k, 'p, 'tx) mpc_lib \<Rightarrow> Messenger list \<Rightarrow> nat \<Rightarrow> string list \<Rightarrow> Curve \<Rightarrow> nat \<Rightarrow>
   'k keygenResult" where
  "keygen_goroutine L messengers nParties partyNames ed25519Curve partyIdx =
     (case NewJobMP L (messengers ! partyIdx) nParties partyIdx partyNames of
        Inl err \<Rightarrow>
          \<lparr>keygen_idx = partyIdx, keygen_keyShare = zero_EDDSAMPCKey L, keygen_err = Some err\<rparr>
      | Inr job \<Rightarrow>
          (let req = \<lparr>KeyGen_Curve = ed25519Curve\<rparr>
           in case EDDSAMPCKeyGen L job req of
                Inl err \<Rightarrow>
                  \<lparr>keygen_idx = partyIdx, keygen_keyShare = zero_EDDSAMPCKey L,
                   keygen_err = Some err\<rparr>
              | Inr resp \<Rightarrow>
                  \<lparr>keygen_idx = partyIdx, keygen_keyShare = KeyGen_KeyShare resp,
                   keygen_err = None\<rparr>))"

text \<open>
  The loop that collects the key shares from the channel, given the results in the order
  they arrive; it returns at the first error.
\<close>

fun collect_keyShares :: "'k keygenResult list \<Rightarrow> 'k list \<Rightarrow> error + 'k list" where
  "collect_keyShares [] keyShares = Inr keyShares"
| "collect_keyShares (result # rest) keyShares =
     (case keygen_err result of
        Some err \<Rightarrow>
          Inl (Errorf ''keygen failed for party %d: %v'' [keygen_idx result] (Some err))
      | None \<Rightarrow>
          collect_keyShares rest (keyShares[keygen_idx result := keygen_keyShare result]))"

text \<open>What the signing goroutine of party \<open>partyIdx\<close> sends on \<^verbatim>\<open>signCh\<close>.\<close>

definition signCh_goroutine ::
  "('k, 'p, 'tx) mpc_lib \<Rightarrow> Messenger list \<Rightarrow> nat \<Rightarrow> string list \<Rightarrow> 'k list \<Rightarrow> bytes \<Rightarrow> nat \<Rightarrow>
   nat \<Rightarrow> signResult" where
  "signCh_goroutine L messengers nParties partyNames keyShares messageToSign
     signatureReceiver partyIdx =
     (case NewJobMP L (messengers ! partyIdx) nParties partyIdx partyNames of
        Inl err \<Rightarrow> \<lparr>sign_idx = partyIdx, sign_signature = [], sign_err = Some err\<rparr>
      | Inr job \<Rightarrow>
          (let req = \<lparr>KeyShare = keyShares ! partyIdx, Message = messageToSign,
                      SignatureReceiver = signatureReceiver\<rparr>
           in case EDDSAMPCSign L job req of
                Inl err \<Rightarrow> \<lparr>sign_idx = partyIdx, sign_signature = [], sign_err = Some err\<rparr>
              | Inr resp \<Rightarrow>
                  \<lparr>sign_idx = partyIdx, sign_signature = Signature resp, sign_err = None\<rparr>))"

text \<open>
  The loop that collects the signature. It writes through the \<^verbatim>\<open>transfer\<close> pointer,
  so the transfer is returned with the error.
\<close>

fun collect_signature ::
  "signResult list \<Rightarrow> nat \<Rightarrow> 'tx SolanaTransfer \<Rightarrow> error option \<times> 'tx SolanaTransfer" where
  "collect_signature [] signatureReceiver transfer = (None, transfer)"
| "collect_signature (result # rest) signatureReceiver transfer =
     (case sign_err result of
        Some err \<Rightarrow>
          (Some (Errorf ''signing failed for party %d: %v'' [sign_idx result] (Some err)),
           transfer)
      | None \<Rightarrow>
          collect_signature rest signatureReceiver
            (if sign_idx result = signatureReceiver \<and> length (sign_signature result) > 0
             then transfer\<lparr>MPCSignature := sign_signature result\<rparr>
             else transfer))"

text \<open>
  \<^verbatim>\<open>signWithMPC\<close>: \<open>keygenOrder\<close> and \<open>signOrder\<close> are the orders in which the results
  of the two rounds of goroutines arrive on their channels. The function returns the
  error (\<open>None\<close> is \<^verbatim>\<open>nil\<close>) and leaves the signature in the transfer.
\<close>

definition signWithMPC ::
  "transfer_consts \<Rightarrow> ('k, 'p, 'tx) mpc_lib \<Rightarrow> nat list \<Rightarrow> nat list \<Rightarrow> 'tx SolanaTransfer \<Rightarrow>
   error option \<times> 'tx SolanaTransfer" where
  "signWithMPC C L keygenOrder signOrder transfer =
     (case Message_MarshalBinary L (Transaction transfer) of
        Inl err \<Rightarrow>
          (Some (Errorf ''failed to serialize transaction message: %v'' [] (Some err)),
           transfer)
      | Inr messageToSign \<Rightarrow>
     (case NewEd25519 L of
        Inl err \<Rightarrow>
          (Some (Errorf ''failed to create Ed25519 curve: %v'' [] (Some err)), transfer)
      | Inr ed25519Curve \<Rightarrow>
     (let nParties = 3;
          partyNames = [''server'', ''pin-device'', ''offline-kms''];
          messengers = NewMockNetwork nParties;
          keygenCh = map (keygen_goroutine L messengers nParties partyNames ed25519Curve)
                       keygenOrder
      in case collect_keyShares keygenCh (replicate nParties (zero_EDDSAMPCKey L)) of
           Inl err \<Rightarrow> (Some err, transfer)
         | Inr keyShares \<Rightarrow>
     (let signatureReceiver = 0;
          signCh = map (signCh_goroutine L messengers nParties partyNames keyShares
                          messageToSign signatureReceiver)
                     signOrder
      in case collect_signature signCh signatureReceiver transfer of
           (Some err, transfer') \<Rightarrow> (Some err, transfer')
         | (None, transfer') \<Rightarrow>
             if length (MPCSignature transfer') \<noteq> 64
             then (Some (Errorf ''invalid signature length: got %d, expected 64''
                           [length (MPCSignature transfer')] None),
                   transfer')
             else (None, transfer')))))"

subsection \<open>The transaction signer: \<^verbatim>\<open>performMPCSigning\<close>\<close>

text \<open>
  The loop that collects the signature into the local variable \<^verbatim>\<open>finalSignature\<close>.
\<close>

fun signer_collect_signature :: "signResult list \<Rightarrow> nat \<Rightarrow> bytes \<Rightarrow> error option \<times> bytes" where
  "signer_collect_signature [] signatureReceiver finalSignature' = (None, finalSignature')"
| "signer_collect_signature (result # rest) signatureReceiver finalSignature' =
     (case sign_err result of
        Some err \<Rightarrow>
          (Some (Errorf ''signing failed for party %d: %v'' [sign_idx result] (Some err)),
           finalSignature')
      | None \<Rightarrow>
          signer_collect_signature rest signatureReceiver
            (if sign_idx result = signatureReceiver \<and> length (sign_signature result) > 0
             then sign_signature result
             else finalSignature'))"

text \<open>
  \<^verbatim>\<open>performMPCSigning(curve, message)\<close> of the transaction signer: the same two rounds
  as \<^verbatim>\<open>signWithMPC\<close>. It returns the error only; the model returns with it the
  value of \<^verbatim>\<open>finalSignature\<close>, which the function prints.
\<close>

definition signer_performMPCSigning ::
  "('k, 'p, 'tx) mpc_lib \<Rightarrow> nat list \<Rightarrow> nat list \<Rightarrow> Curve \<Rightarrow> bytes \<Rightarrow> error option \<times> bytes" where
  "signer_performMPCSigning L keygenOrder signOrder curve message =
     (let nParties = 3;
          partyNames = [''server'', ''pin-device'', ''offline-kms''];
          messengers = NewMockNetwork nParties;
          keygenCh = map (keygen_goroutine L messengers nParties partyNames curve) keygenOrder
      in case collect_keyShares keygenCh (replicate nParties (zero_EDDSAMPCKey L)) of
           Inl err \<Rightarrow> (Some err, [])
         | Inr keyShares \<Rightarrow>
     (let signatureReceiver = 0;
          signCh = map (signCh_goroutine L messengers nParties partyNames keyShares message
                          signatureReceiver)
                     signOrder
      in case signer_collect_signature signCh signatureReceiver [] of
           (Some err, finalSignature') \<Rightarrow> (Some err, finalSignature')
         | (None, finalSignature') \<Rightarrow>
             if length finalSignature' = 0
             then (Some (Errorf ''no signature received'' [] None), finalSignature')
             else if length finalSignature' \<noteq> 64
             then (Some (Errorf ''invalid Ed25519 signature length: got %d, expected 64''
                           [length finalSignature'] None),
                   finalSignature')
             else (None, finalSignature')))"

subsection \<open>What one party's calls return\<close>

text \<open>
  The goroutines above create a job and make one protocol call. These functions name the
  outcome of the two calls of party \<open>partyIdx\<close>, for the statements below.
\<close>

definition sign_party ::
  "('k, 'p, 'tx) mpc_lib \<Rightarrow> Messenger list \<Rightarrow> nat \<Rightarrow> string list \<Rightarrow> 'k list \<Rightarrow> bytes \<Rightarrow> nat \<Rightarrow>
   nat \<Rightarrow> error + EDDSAMPCSignResponse" where
  "sign_party L messengers nParties partyNames parties message signatureReceiver partyIdx =
     (case NewJobMP L (messengers ! partyIdx) nParties partyIdx partyNames of
        Inl err \<Rightarrow> Inl err
      | Inr job \<Rightarrow>
          EDDSAMPCSign L job
            \<lparr>KeyShare = parties ! partyIdx, Message = message,
             SignatureReceiver = signatureReceiver\<rparr>)"

definition dkg_party ::
  "('k, 'p, 'tx) mpc_lib \<Rightarrow> Messenger list \<Rightarrow> nat \<Rightarrow> string list \<Rightarrow> Curve \<Rightarrow> AccessStructure \<Rightarrow>
   nat \<Rightarrow> error + 'k EDDSAMPCThresholdDKGResponse" where
  "dkg_party L messengers nParties partyNames ed25519Curve accessStructure partyIdx =
     (case NewJobMP L (messengers ! partyIdx) nParties partyIdx partyNames of
        Inl err \<Rightarrow> Inl err
      | Inr job \<Rightarrow>
          EDDSAMPCThresholdDKG L job
            \<lparr>DKG_Curve = ed25519Curve, DKG_AccessStructure = accessStructure\<rparr>)"

definition keygen_party ::
  "('k, 'p, 'tx) mpc_lib \<Rightarrow> Messenger list \<Rightarrow> nat \<Rightarrow> string list \<Rightarrow> Curve \<Rightarrow> nat \<Rightarrow>
   error + 'k EDDSAMPCKeyGenResponse" where
  "keygen_party L messengers nParties partyNames ed25519Curve partyIdx =
     (case NewJobMP L (messengers ! partyIdx) nParties partyIdx partyNames of
        Inl err \<Rightarrow> Inl err
      | Inr job \<Rightarrow> EDDSAMPCKeyGen L job \<lparr>KeyGen_Curve = ed25519Curve\<rparr>)"

subsection \<open>Share conversion\<close>

text \<open>
  Modelled from the spec: \<^verbatim>\<open>ToAdditiveShare\<close> is a method of the library's key type
  and is not among the sources. Section 4.4: the quorum must satisfy the access structure
  (checked with \<open>satisfies\<close>); a violation fails with \<open>UnauthorizedQuorum\<close> before any
  cryptographic work; otherwise the additive share of that key share for that quorum is
  computed. The computation itself is the parameter \<open>derive\<close>.
\<close>

definition ToAdditiveShare_spec ::
  "('k \<Rightarrow> AccessStructure \<Rightarrow> string list \<Rightarrow> 'k) \<Rightarrow> 'k \<Rightarrow> AccessStructure \<Rightarrow> string list \<Rightarrow>
   error + 'k" where
  "ToAdditiveShare_spec derive keyShare ac quorum =
     (if satisfies (Root ac) quorum then Inr (derive keyShare ac quorum)
      else Inl UnauthorizedQuorum)"

subsection \<open>The transaction signer: the PIN derivation of \<^verbatim>\<open>main\<close>\<close>

text \<open>
  \<^verbatim>\<open>pbkdf2.Key([]byte(TestPIN), []byte(PINSalt), PBKDFIterations, 32, sha256.New)\<close>
  with the constants of the transaction signer, the PIN as argument.
\<close>

definition derive_pinKey :: "('k, 'p, 'tx) mpc_lib \<Rightarrow> string \<Rightarrow> bytes" where
  "derive_pinKey L testPIN =
     pbkdf2_Key L (bytes_of_string testPIN) (bytes_of_string ''solana-cb-mpc-salt-2024'')
       100000 32"

text \<open>
  What the programs rely on from \<^verbatim>\<open>pbkdf2.Key\<close>: it returns \<open>keyLen\<close> bytes.
\<close>

definition pbkdf2_returns_keyLen :: "('k, 'p, 'tx) mpc_lib \<Rightarrow> bool" where
  "pbkdf2_returns_keyLen L =
     (\<forall>password salt iter keyLen. length (pbkdf2_Key L password salt iter keyLen) = keyLen)"

subsection \<open>A simulated library for concrete runs\<close>

text \<open>
  A library that can be run: key shares are numbers (party \<open>i\<close> gets \<open>10 + i\<close> from a key
  generation), the public point of a share is the share, job creation fails for the
  parties listed in \<open>broken\<close>, share conversion follows section 4.4, and a signing call
  hands \<open>sigbytes\<close> to the receiver and nothing to the others.
\<close>

definition sim_lib :: "bytes \<Rightarrow> nat list \<Rightarrow> (nat, nat, bytes) mpc_lib" where
  "sim_lib sigbytes broken =
     \<lparr>pbkdf2_Key = (\<lambda>password salt iter keyLen. take keyLen (password @ replicate keyLen 0)),
      base64_DecodeString = (\<lambda>s. ([], None)),
      base64_EncodeToString = (\<lambda>b. replicate (length b) CHR ''A''),
      NewEd25519 = Inr Ed25519,
      zero_EDDSAMPCKey = 0,
      UnmarshalBinary = (\<lambda>b. Inr 7),
      MarshalBinary = (\<lambda>k. Inr [of_nat k]),
      ToAdditiveShare = ToAdditiveShare_spec (\<lambda>k ac quorum. k),
      Q = (\<lambda>k. Inr k),
      GetX = (\<lambda>p. replicate 32 (of_nat p)),
      NewJobMP = (\<lambda>m n i names.
        if i \<in> set broken then Inl (LibError ''job creation failed'')
        else Inr \<lparr>job_messenger = m, job_nParties = n, job_index = i, job_pnames = names\<rparr>),
      EDDSAMPCThresholdDKG = (\<lambda>job req. Inr \<lparr>DKG_KeyShare = 10 + job_index job\<rparr>),
      EDDSAMPCKeyGen = (\<lambda>job req. Inr \<lparr>KeyGen_KeyShare = 10 + job_index job\<rparr>),
      EDDSAMPCSign = (\<lambda>job req.
        Inr \<lparr>Signature = (if job_index job = SignatureReceiver req then sigbytes else [])\<rparr>),
      Message_MarshalBinary = (\<lambda>tx. Inr tx)\<rparr>"

text \<open>The constants of the transfer program, and a transfer as its \<^verbatim>\<open>main\<close> builds it.\<close>

definition real_transfer_consts :: transfer_consts where
  "real_transfer_consts =
     \<lparr>PINSalt = ''solana-cb-mpc-salt-2024'',
      PBKDFIterations = 100000,
      TestPIN = ''123456'',
      S1Share = ''C38CAQL/gAABCgAA/8//gAAFIUAF83fys98VwMWbEzX1WGeETVZocYWJZElXGqdRtSCA1CIEP76k1u2BZw/MmMe1OVo82mKrWW/jWbmyWAFBElHCeoQleQMAA2ttcwQ/RclMbbmtJcmblf7ZdR5QM8gFhWqJn9koRCXyUzx6ct8AA3BpbgQ/lQdhUDG/+AGcIjoGxPER16hutJgvXd5jMmCkZMgOFesABnNlcnZlcgQ/rvy6FBdJYJML+EunNqUxFs//bhk4Tc4OU3N1EeZDnEMCBD8IAAZzZXJ2ZXI='',
      MyWalletAddress = ''2Y1Bw3vbdATKey1pDZaMAPXmBFjgswAsREKnsJb8omTZ'',
      ToAddress_const = ''9WzDXwBbmkg8ZTbNMqUxvQRAyrZzDsGYdLVL9zYtAWWM'',
      DevnetRPC = ''https://api.devnet.solana.com''\<rparr>"

definition fresh_transfer :: "bytes SolanaTransfer" where
  "fresh_transfer =
     \<lparr>FromAddress = replicate 32 1, ToAddress = replicate 32 2, Amount = 10000000,
      Transaction = [1, 2, 3], MPCSignature = []\<rparr>"

subsection \<open>Verification of a signature\<close>





section \<open>Properties\<close>

subsection \<open>The signing goroutines of the complete demo\<close>

lemma sign_goroutine_party:
  "sign_goroutine L ms pn ps m r i g =
     (case sign_party L ms 3 pn ps m r i of
        Inl err \<Rightarrow> g\<lparr>sign_eg_err := eg_return err (sign_eg_err g)\<rparr>
      | Inr resp \<Rightarrow> if i = r then g\<lparr>finalSignature := Signature resp\<rparr> else g)"
  by (simp add: sign_goroutine_def sign_party_def Let_def split: sum.splits)

lemma eg_return_simps [simp]:
  "eg_return err None = Some err" "eg_return err (Some e) = Some e"
  by (simp_all add: eg_return_def)

lemma eg_return_not_None [simp]: "(eg_return err first = None) = False"
  by (cases first) simp_all

lemma sign_goroutine_keeps_err:
  "sign_eg_err g = Some e \<Longrightarrow> sign_eg_err (sign_goroutine L ms pn ps m r i g) = Some e"
  by (simp add: sign_goroutine_party split: sum.splits)

lemma sign_fold_keeps_err:
  "sign_eg_err g = Some e \<Longrightarrow>
   sign_eg_err (fold (sign_goroutine L ms pn ps m r) sched g) = Some e"
  by (induction sched arbitrary: g) (simp_all add: sign_goroutine_keeps_err)

lemma sign_fold_failed_party:
  "i \<in> set sched \<Longrightarrow> sign_party L ms 3 pn ps m r i = Inl e \<Longrightarrow>
   \<exists>e'. sign_eg_err (fold (sign_goroutine L ms pn ps m r) sched g) = Some e'"
proof (induction sched arbitrary: g)
  case Nil
  then show ?case by simp
next
  case (Cons j sched)
  show ?case
  proof (cases "j = i")
    case True
    have "\<exists>e'. sign_eg_err (sign_goroutine L ms pn ps m r j g) = Some e'"
      using Cons.prems(2) True by (cases "sign_eg_err g") (simp_all add: sign_goroutine_party)
    then show ?thesis using sign_fold_keeps_err by fastforce
  next
    case False
    with Cons show ?thesis by simp
  qed
qed

lemma sign_fold_final:
  "sign_eg_err (fold (sign_goroutine L ms pn ps m r) sched g) = None \<Longrightarrow>
   finalSignature (fold (sign_goroutine L ms pn ps m r) sched g) =
     (if r \<in> set sched
      then (case sign_party L ms 3 pn ps m r r of Inr resp \<Rightarrow> Signature resp | Inl e \<Rightarrow> [])
      else finalSignature g)"
proof (induction sched arbitrary: g)
  case Nil
  then show ?case by simp
next
  case (Cons j sched)
  let ?g = "sign_goroutine L ms pn ps m r j g"
  from Cons.prems have none: "sign_eg_err (fold (sign_goroutine L ms pn ps m r) sched ?g) = None"
    by simp
  have ok: "sign_eg_err ?g = None"
  proof (rule ccontr)
    assume "sign_eg_err ?g \<noteq> None"
    then obtain e where "sign_eg_err ?g = Some e" by auto
    then have "sign_eg_err (fold (sign_goroutine L ms pn ps m r) sched ?g) = Some e"
      by (rule sign_fold_keeps_err)
    with none show False by simp
  qed
  from Cons.IH [OF none] have IH: "finalSignature (fold (sign_goroutine L ms pn ps m r) sched ?g) =
     (if r \<in> set sched
      then (case sign_party L ms 3 pn ps m r r of Inr resp \<Rightarrow> Signature resp | Inl e \<Rightarrow> [])
      else finalSignature ?g)" .
  show ?case
  proof (cases "r \<in> set sched")
    case True
    with IH show ?thesis by simp
  next
    case False
    show ?thesis
    proof (cases "j = r")
      case True
      with ok obtain resp where "sign_party L ms 3 pn ps m r r = Inr resp"
        by (cases "sign_party L ms 3 pn ps m r r") (simp_all add: sign_goroutine_party)
      then have "finalSignature ?g = Signature resp"
        using True by (simp add: sign_goroutine_party)
      with IH False True \<open>sign_party L ms 3 pn ps m r r = Inr resp\<close> show ?thesis by simp
    next
      case jr: False
      with ok have "finalSignature ?g = finalSignature g"
        by (simp add: sign_goroutine_party split: sum.splits)
      with IH False jr show ?thesis by simp
    qed
  qed
qed

lemma run_signing_Inr:
  assumes "run_signing L sched pn ps m = Inr sig"
  shows "\<exists>resp. sign_party L (NewMockNetwork (length ps)) 3 pn ps m 0 0 = Inr resp
           \<and> sig = Signature resp \<and> 0 \<in> set sched"
proof -
  let ?ms = "NewMockNetwork (length ps)"
  let ?g = "fold (sign_goroutine L ?ms pn ps m 0) sched \<lparr>finalSignature = [], sign_eg_err = None\<rparr>"
  from assms have none: "sign_eg_err ?g = None"
    by (simp add: run_signing_def Let_def split: option.splits if_splits)
  from assms none have sig: "sig = finalSignature ?g" and nonempty: "finalSignature ?g \<noteq> []"
    by (simp_all add: run_signing_def Let_def split: if_splits)
  from sign_fold_final [OF none] have fin: "finalSignature ?g =
     (if 0 \<in> set sched
      then (case sign_party L ?ms 3 pn ps m 0 0 of Inr resp \<Rightarrow> Signature resp | Inl e \<Rightarrow> [])
      else [])" by simp
  from fin nonempty have mem: "0 \<in> set sched" by (simp split: if_splits)
  from fin nonempty mem obtain resp where "sign_party L ?ms 3 pn ps m 0 0 = Inr resp"
    by (cases "sign_party L ?ms 3 pn ps m 0 0") simp_all
  with fin mem sig show ?thesis by simp
qed

lemma run_signing_failed_party:
  assumes "i \<in> set sched"
    and "sign_party L (NewMockNetwork (length ps)) 3 pn ps m 0 i = Inl e"
  shows "\<exists>e'. run_signing L sched pn ps m = Inl e'"
proof -
  from sign_fold_failed_party [OF assms]
  obtain e' where "sign_eg_err (fold (sign_goroutine L (NewMockNetwork (length ps)) pn ps m 0)
      sched \<lparr>finalSignature = [], sign_eg_err = None\<rparr>) = Some e'" by blast
  then show ?thesis by (simp add: run_signing_def Let_def)
qed

lemma performMPCSigning_body_Inr:
  assumes "performMPCSigning_body L sched s1 s3 pin quorum m = Inr sig"
  shows "\<exists>s1Key s3Key crv s1Add s3Add.
           UnmarshalBinary L (fst (base64_DecodeString L s1)) = Inr s1Key
         \<and> UnmarshalBinary L (fst (base64_DecodeString L s3)) = Inr s3Key
         \<and> NewEd25519 L = Inr crv
         \<and> ToAdditiveShare L s1Key
             (createThresholdAccessStructure [''server'', ''kms'', ''pin''] 2 crv) quorum = Inr s1Add
         \<and> ToAdditiveShare L s3Key
             (createThresholdAccessStructure [''server'', ''kms'', ''pin''] 2 crv) quorum = Inr s3Add
         \<and> run_signing L sched [''server'', ''kms'', ''pin''] [s1Add, s3Add] m = Inr sig"
  using assms
  by (simp add: performMPCSigning_body_def Let_def split: sum.splits)

subsection \<open>The key-generation goroutines of the wallet generator\<close>

lemma dkg_goroutine_ok:
  "dkg_party L ms n pn crv ac i = Inr resp \<Longrightarrow>
   dkg_goroutine L ms n pn crv ac i g =
     g\<lparr>dkg_keyShares := (dkg_keyShares g)[i := DKG_KeyShare resp]\<rparr>"
  by (auto simp add: dkg_goroutine_def dkg_party_def Let_def split: sum.splits)

lemma dkg_goroutine_fail:
  "dkg_party L ms n pn crv ac i = Inl e \<Longrightarrow>
   \<exists>e'. dkg_eg_err (dkg_goroutine L ms n pn crv ac i g) = Some e'"
  by (cases "dkg_eg_err g")
     (auto simp add: dkg_goroutine_def dkg_party_def Let_def split: sum.splits)

lemma dkg_goroutine_keeps_err:
  "dkg_eg_err g = Some e \<Longrightarrow> dkg_eg_err (dkg_goroutine L ms n pn crv ac i g) = Some e"
  by (simp add: dkg_goroutine_def Let_def split: sum.splits)

lemma dkg_goroutine_length:
  "length (dkg_keyShares (dkg_goroutine L ms n pn crv ac i g)) = length (dkg_keyShares g)"
  by (simp add: dkg_goroutine_def Let_def split: sum.splits)

lemma dkg_goroutine_other_slot:
  "i \<noteq> j \<Longrightarrow>
   dkg_keyShares (dkg_goroutine L ms n pn crv ac j g) ! i = dkg_keyShares g ! i"
  by (simp add: dkg_goroutine_def Let_def split: sum.splits)

lemma dkg_fold_keeps_err:
  "dkg_eg_err g = Some e \<Longrightarrow>
   dkg_eg_err (fold (dkg_goroutine L ms n pn crv ac) sched g) = Some e"
  by (induction sched arbitrary: g) (simp_all add: dkg_goroutine_keeps_err)

lemma dkg_fold_length:
  "length (dkg_keyShares (fold (dkg_goroutine L ms n pn crv ac) sched g)) =
   length (dkg_keyShares g)"
  by (induction sched arbitrary: g) (simp_all add: dkg_goroutine_length)

lemma dkg_fold_other_slot:
  "i \<notin> set sched \<Longrightarrow>
   dkg_keyShares (fold (dkg_goroutine L ms n pn crv ac) sched g) ! i = dkg_keyShares g ! i"
  by (induction sched arbitrary: g) (simp_all add: dkg_goroutine_other_slot)

lemma dkg_fold_failed_party:
  "i \<in> set sched \<Longrightarrow> dkg_party L ms n pn crv ac i = Inl e \<Longrightarrow>
   \<exists>e'. dkg_eg_err (fold (dkg_goroutine L ms n pn crv ac) sched g) = Some e'"
proof (induction sched arbitrary: g)
  case Nil
  then show ?case by simp
next
  case (Cons j sched)
  show ?case
  proof (cases "j = i")
    case True
    with Cons.prems(2) obtain e' where
      "dkg_eg_err (dkg_goroutine L ms n pn crv ac j g) = Some e'"
      using dkg_goroutine_fail by blast
    then show ?thesis by (simp add: dkg_fold_keeps_err)
  next
    case False
    with Cons show ?thesis by simp
  qed
qed

lemma dkg_fold_slot:
  "dkg_eg_err (fold (dkg_goroutine L ms n pn crv ac) sched g) = None \<Longrightarrow>
   i \<in> set sched \<Longrightarrow> i < length (dkg_keyShares g) \<Longrightarrow>
   \<exists>resp. dkg_party L ms n pn crv ac i = Inr resp
        \<and> dkg_keyShares (fold (dkg_goroutine L ms n pn crv ac) sched g) ! i = DKG_KeyShare resp"
proof (induction sched arbitrary: g)
  case Nil
  then show ?case by simp
next
  case (Cons j sched)
  let ?g = "dkg_goroutine L ms n pn crv ac j g"
  from Cons.prems(1) have none: "dkg_eg_err (fold (dkg_goroutine L ms n pn crv ac) sched ?g) = None"
    by simp
  have len: "i < length (dkg_keyShares ?g)"
    using Cons.prems(3) by (simp add: dkg_goroutine_length)
  show ?case
  proof (cases "i \<in> set sched")
    case True
    from Cons.IH [OF none True len] show ?thesis by simp
  next
    case False
    with Cons.prems(2) have ji: "j = i" by simp
    have ok: "dkg_eg_err ?g = None"
    proof (rule ccontr)
      assume "dkg_eg_err ?g \<noteq> None"
      then obtain e where "dkg_eg_err ?g = Some e" by auto
      then have "dkg_eg_err (fold (dkg_goroutine L ms n pn crv ac) sched ?g) = Some e"
        by (rule dkg_fold_keeps_err)
      with none show False by simp
    qed
    obtain resp where resp: "dkg_party L ms n pn crv ac i = Inr resp"
    proof (cases "dkg_party L ms n pn crv ac i")
      case (Inl e)
      from dkg_goroutine_fail [OF this, of g] ok ji show ?thesis by simp
    next
      case (Inr r)
      then show ?thesis by (rule that)
    qed
    have "dkg_keyShares (fold (dkg_goroutine L ms n pn crv ac) sched ?g) ! i = dkg_keyShares ?g ! i"
      using False by (rule dkg_fold_other_slot)
    also have "\<dots> = DKG_KeyShare resp"
      using resp ji Cons.prems(3) by (simp add: dkg_goroutine_ok)
    finally show ?thesis using resp by simp
  qed
qed

subsection \<open>The channels of the real transfer\<close>

lemma keygen_goroutine_ok:
  "keygen_party L ms n pn crv i = Inr resp \<Longrightarrow>
   keygen_goroutine L ms n pn crv i =
     \<lparr>keygen_idx = i, keygen_keyShare = KeyGen_KeyShare resp, keygen_err = None\<rparr>"
  by (auto simp add: keygen_goroutine_def keygen_party_def Let_def split: sum.splits)

lemma keygen_goroutine_fail:
  "keygen_party L ms n pn crv i = Inl e \<Longrightarrow>
   keygen_goroutine L ms n pn crv i =
     \<lparr>keygen_idx = i, keygen_keyShare = zero_EDDSAMPCKey L, keygen_err = Some e\<rparr>"
  by (auto simp add: keygen_goroutine_def keygen_party_def Let_def split: sum.splits)




lemma collect_keyShares_failed_party:
  "i \<in> set order \<Longrightarrow> keygen_party L ms n pn crv i = Inl e \<Longrightarrow>
   \<exists>e'. collect_keyShares (map (keygen_goroutine L ms n pn crv) order) ks = Inl e'"
proof (induction order arbitrary: ks)
  case Nil
  then show ?case by simp
next
  case (Cons j order)
  show ?case
  proof (cases "keygen_party L ms n pn crv j")
    case (Inl e')
    then show ?thesis by (simp add: keygen_goroutine_fail)
  next
    case (Inr resp)
    with Cons.prems have "i \<in> set order" by auto
    from Cons.IH [OF this Cons.prems(2)] Inr show ?thesis
      by (simp add: keygen_goroutine_ok)
  qed
qed

lemma signCh_goroutine_ok:
  "sign_party L ms n pn ks m r i = Inr resp \<Longrightarrow>
   signCh_goroutine L ms n pn ks m r i =
     \<lparr>sign_idx = i, sign_signature = Signature resp, sign_err = None\<rparr>"
  by (auto simp add: signCh_goroutine_def sign_party_def Let_def split: sum.splits)

lemma signCh_goroutine_fail:
  "sign_party L ms n pn ks m r i = Inl e \<Longrightarrow>
   signCh_goroutine L ms n pn ks m r i =
     \<lparr>sign_idx = i, sign_signature = [], sign_err = Some e\<rparr>"
  by (auto simp add: signCh_goroutine_def sign_party_def Let_def split: sum.splits)

lemma collect_signature_failed_party:
  "i \<in> set order \<Longrightarrow> sign_party L ms n pn ks m r i = Inl e \<Longrightarrow>
   \<exists>e' t'. collect_signature (map (signCh_goroutine L ms n pn ks m r) order) r t =
     (Some e', t')"
proof (induction order arbitrary: t)
  case Nil
  then show ?case by simp
next
  case (Cons j order)
  show ?case
  proof (cases "sign_party L ms n pn ks m r j")
    case (Inl e')
    then show ?thesis by (simp add: signCh_goroutine_fail)
  next
    case (Inr resp)
    with Cons.prems have "i \<in> set order" by auto
    from Cons.IH [OF this Cons.prems(2)] Inr show ?thesis
      by (simp add: signCh_goroutine_ok)
  qed
qed

lemma collect_signature_None:
  "collect_signature (map (signCh_goroutine L ms n pn ks m r) order) r t = (None, t') \<Longrightarrow>
   t' = t \<or>
   (\<exists>resp. r \<in> set order \<and> sign_party L ms n pn ks m r r = Inr resp
      \<and> Signature resp \<noteq> [] \<and> t' = t\<lparr>MPCSignature := Signature resp\<rparr>)"
proof (induction order arbitrary: t)
  case Nil
  then show ?case by simp
next
  case (Cons j order)
  show ?case
  proof (cases "sign_party L ms n pn ks m r j")
    case (Inl e)
    with Cons.prems show ?thesis by (simp add: signCh_goroutine_fail)
  next
    case (Inr resp)
    let ?t = "if j = r \<and> Signature resp \<noteq> [] then t\<lparr>MPCSignature := Signature resp\<rparr> else t"
    from Cons.prems Inr have rest:
      "collect_signature (map (signCh_goroutine L ms n pn ks m r) order) r ?t = (None, t')"
      by (cases "j = r \<and> Signature resp \<noteq> []") (auto simp add: signCh_goroutine_ok)
    from Cons.IH [OF rest] Inr show ?thesis
      by (auto split: if_splits)
  qed
qed

lemma signWithMPC_None:
  assumes "signWithMPC C L keygenOrder signOrder t = (None, t')"
  shows "\<exists>messageToSign crv keyShares.
           Message_MarshalBinary L (Transaction t) = Inr messageToSign
         \<and> NewEd25519 L = Inr crv
         \<and> collect_keyShares
             (map (keygen_goroutine L (NewMockNetwork 3) 3
                     [''server'', ''pin-device'', ''offline-kms''] crv) keygenOrder)
             (replicate 3 (zero_EDDSAMPCKey L)) = Inr keyShares
         \<and> collect_signature
             (map (signCh_goroutine L (NewMockNetwork 3) 3
                     [''server'', ''pin-device'', ''offline-kms''] keyShares messageToSign 0)
                signOrder) 0 t = (None, t')
         \<and> length (MPCSignature t') = 64"
  using assms
  by (auto simp add: signWithMPC_def Let_def split: sum.splits prod.splits option.splits if_splits)

subsection \<open>The functions as a whole\<close>

lemma is_schedule_mem: "is_schedule n sched \<Longrightarrow> i < n \<Longrightarrow> i \<in> set sched"
proof -
  assume a: "is_schedule n sched" and b: "i < n"
  from a have "set (sort sched) = set [0..<n]" by (simp add: is_schedule_def)
  with b show ?thesis by simp
qed

lemma wallet_generator_main_Inr:
  assumes "wallet_generator_main L sched = Inr w"
  shows "\<exists>P.
           NewEd25519 L = Inr Ed25519
         \<and> dkg_eg_err (fold (dkg_goroutine L (NewMockNetwork 3) 3 [''server'', ''kms'', ''pin'']
               Ed25519 (createThresholdAccessStructure [''server'', ''kms'', ''pin''] 2 Ed25519))
               sched \<lparr>dkg_keyShares = replicate 3 (zero_EDDSAMPCKey L), dkg_eg_err = None\<rparr>) = None
         \<and> Q L (dkg_keyShares (fold (dkg_goroutine L (NewMockNetwork 3) 3
               [''server'', ''kms'', ''pin''] Ed25519
               (createThresholdAccessStructure [''server'', ''kms'', ''pin''] 2 Ed25519))
               sched \<lparr>dkg_keyShares = replicate 3 (zero_EDDSAMPCKey L), dkg_eg_err = None\<rparr>) ! 0)
             = Inr P
         \<and> out_publicKeyBytes w = GetX L P
         \<and> out_solanaAddress w = GetX L P
         \<and> length (GetX L P) = 32"
proof (cases "NewEd25519 L")
  case (Inl err)
  with assms show ?thesis by (simp add: wallet_generator_main_def Let_def)
next
  case (Inr crv)
  have "crv = Ed25519" by (cases crv) simp
  with Inr have c: "NewEd25519 L = Inr Ed25519" by simp
  from assms show ?thesis
    by (auto simp add: c wallet_generator_main_def Let_def
        split: sum.splits option.splits if_splits)
qed

lemma wallet_generator_main_failed_party:
  assumes "i \<in> set sched"
    and "dkg_party L (NewMockNetwork 3) 3 [''server'', ''kms'', ''pin''] Ed25519
           (createThresholdAccessStructure [''server'', ''kms'', ''pin''] 2 Ed25519) i = Inl e"
  shows "\<exists>e'. wallet_generator_main L sched = Inl e'"
proof (cases "NewEd25519 L")
  case (Inl err)
  then show ?thesis by (simp add: wallet_generator_main_def Let_def)
next
  case (Inr crv)
  have "crv = Ed25519" by (cases crv) simp
  with Inr have c: "NewEd25519 L = Inr Ed25519" by simp
  from dkg_fold_failed_party [OF assms]
  obtain e' where "dkg_eg_err (fold (dkg_goroutine L (NewMockNetwork 3) 3
      [''server'', ''kms'', ''pin''] Ed25519
      (createThresholdAccessStructure [''server'', ''kms'', ''pin''] 2 Ed25519)) sched
      \<lparr>dkg_keyShares = replicate 3 (zero_EDDSAMPCKey L), dkg_eg_err = None\<rparr>) = Some e'"
    by blast
  with c show ?thesis by (simp add: wallet_generator_main_def Let_def)
qed

lemma wallet_generator_main_via_key:
  "wallet_generator_main L sched =
     (case wallet_generator_key L sched of
        Inl e \<Rightarrow> Inl e
      | Inr (solanaAddress, publicKeyBytes) \<Rightarrow>
          (case MarshalBinary L
                  (dkg_keyShares (fold (dkg_goroutine L (NewMockNetwork 3) 3
                     [''server'', ''kms'', ''pin''] Ed25519
                     (createThresholdAccessStructure [''server'', ''kms'', ''pin''] 2 Ed25519))
                     sched \<lparr>dkg_keyShares = replicate 3 (zero_EDDSAMPCKey L), dkg_eg_err = None\<rparr>) ! 0) of
             Inl err \<Rightarrow> Inl (Errorf ''Failed to marshal S1 share:'' [] (Some err))
           | Inr s1Data \<Rightarrow>
          (case MarshalBinary L
                  (dkg_keyShares (fold (dkg_goroutine L (NewMockNetwork 3) 3
                     [''server'', ''kms'', ''pin''] Ed25519
                     (createThresholdAccessStructure [''server'', ''kms'', ''pin''] 2 Ed25519))
                     sched \<lparr>dkg_keyShares = replicate 3 (zero_EDDSAMPCKey L), dkg_eg_err = None\<rparr>) ! 1) of
             Inl err \<Rightarrow> Inl (Errorf ''Failed to marshal S2 share:'' [] (Some err))
           | Inr s2Data \<Rightarrow>
          (case MarshalBinary L
                  (dkg_keyShares (fold (dkg_goroutine L (NewMockNetwork 3) 3
                     [''server'', ''kms'', ''pin''] Ed25519
                     (createThresholdAccessStructure [''server'', ''kms'', ''pin''] 2 Ed25519))
                     sched \<lparr>dkg_keyShares = replicate 3 (zero_EDDSAMPCKey L), dkg_eg_err = None\<rparr>) ! 2) of
             Inl err \<Rightarrow> Inl (Errorf ''Failed to marshal S3 share:'' [] (Some err))
           | Inr s3Data \<Rightarrow>
               Inr \<lparr>out_solanaAddress = solanaAddress,
                    out_publicKeyBytes = publicKeyBytes,
                    out_s1Base64 = base64_EncodeToString L s1Data,
                    out_s2Base64 = base64_EncodeToString L s2Data,
                    out_s3Base64 = base64_EncodeToString L s3Data\<rparr>))))"
proof (cases "NewEd25519 L")
  case (Inl err)
  then show ?thesis by (simp add: wallet_generator_main_def wallet_generator_key_def Let_def)
next
  case (Inr crv)
  have "crv = Ed25519" by (cases crv) simp
  with Inr have c: "NewEd25519 L = Inr Ed25519" by simp
  show ?thesis
    by (simp add: c wallet_generator_main_def wallet_generator_key_def Let_def
        split: sum.split option.split)
qed

lemma wallet_generator_main_key:
  assumes "wallet_generator_main L sched = Inr w"
  shows "wallet_generator_key L sched = Inr (out_solanaAddress w, out_publicKeyBytes w)"
proof (cases "wallet_generator_key L sched")
  case (Inl e)
  with assms show ?thesis by (simp add: wallet_generator_main_via_key)
next
  case (Inr printed)
  obtain address publicKey where p: "printed = (address, publicKey)" by (cases printed)
  from assms Inr p have "out_solanaAddress w = address \<and> out_publicKeyBytes w = publicKey"
    by (auto simp add: wallet_generator_main_via_key split: sum.splits)
  with Inr p show ?thesis by simp
qed

lemma wallet_generator_key_main:
  "wallet_generator_key L sched = Inl e \<Longrightarrow> wallet_generator_main L sched = Inl e"
  by (simp add: wallet_generator_main_via_key)

lemma wallet_generator_key_Inr:
  assumes "wallet_generator_key L sched = Inr (address, publicKey)"
  shows "\<exists>P.
           NewEd25519 L = Inr Ed25519
         \<and> dkg_eg_err (fold (dkg_goroutine L (NewMockNetwork 3) 3 [''server'', ''kms'', ''pin'']
               Ed25519 (createThresholdAccessStructure [''server'', ''kms'', ''pin''] 2 Ed25519))
               sched \<lparr>dkg_keyShares = replicate 3 (zero_EDDSAMPCKey L), dkg_eg_err = None\<rparr>) = None
         \<and> Q L (dkg_keyShares (fold (dkg_goroutine L (NewMockNetwork 3) 3
               [''server'', ''kms'', ''pin''] Ed25519
               (createThresholdAccessStructure [''server'', ''kms'', ''pin''] 2 Ed25519))
               sched \<lparr>dkg_keyShares = replicate 3 (zero_EDDSAMPCKey L), dkg_eg_err = None\<rparr>) ! 0)
             = Inr P
         \<and> address = GetX L P
         \<and> publicKey = GetX L P
         \<and> length (GetX L P) = 32"
proof (cases "NewEd25519 L")
  case (Inl err)
  with assms show ?thesis by (simp add: wallet_generator_key_def Let_def)
next
  case (Inr crv)
  have "crv = Ed25519" by (cases crv) simp
  with Inr have c: "NewEd25519 L = Inr Ed25519" by simp
  from assms show ?thesis
    by (auto simp add: c wallet_generator_key_def Let_def
        split: sum.splits option.splits if_splits)
qed

lemma wallet_generator_key_party_0:
  assumes sched: "is_schedule 3 sched"
    and ok: "wallet_generator_key L sched = Inr (address, publicKey)"
  shows "\<exists>resp P.
           dkg_party L (NewMockNetwork 3) 3 [''server'', ''kms'', ''pin''] Ed25519
             (createThresholdAccessStructure [''server'', ''kms'', ''pin''] 2 Ed25519) 0 = Inr resp
         \<and> Q L (DKG_KeyShare resp) = Inr P
         \<and> address = GetX L P
         \<and> publicKey = GetX L P
         \<and> length (GetX L P) = 32
         \<and> (\<forall>q. q (DKG_KeyShare resp) = Inr P \<longrightarrow>
                wallet_generator_key (L\<lparr>Q := q\<rparr>) sched = Inr (address, publicKey)
              \<and> wallet_generator_main (L\<lparr>Q := q\<rparr>) sched = wallet_generator_main L sched)"
proof -
  let ?pn = "[''server'', ''kms'', ''pin'']"
  let ?ac = "createThresholdAccessStructure ?pn 2 Ed25519"
  let ?g0 = "\<lparr>dkg_keyShares = replicate 3 (zero_EDDSAMPCKey L), dkg_eg_err = None\<rparr>"
  let ?g = "fold (dkg_goroutine L (NewMockNetwork 3) 3 ?pn Ed25519 ?ac) sched ?g0"
  from wallet_generator_key_Inr [OF ok] obtain P where
    crv: "NewEd25519 L = Inr Ed25519" and none: "dkg_eg_err ?g = None"
    and q: "Q L (dkg_keyShares ?g ! 0) = Inr P"
    and ad: "address = GetX L P" and pk: "publicKey = GetX L P"
    and len: "length (GetX L P) = 32"
    by blast
  have mem: "0 \<in> set sched" using sched by (rule is_schedule_mem) simp
  from dkg_fold_slot [OF none mem] obtain resp where
    resp: "dkg_party L (NewMockNetwork 3) 3 ?pn Ed25519 ?ac 0 = Inr resp"
    and slot: "dkg_keyShares ?g ! 0 = DKG_KeyShare resp"
    by auto
  have other: "wallet_generator_key (L\<lparr>Q := q'\<rparr>) sched = Inr (address, publicKey)
      \<and> wallet_generator_main (L\<lparr>Q := q'\<rparr>) sched = wallet_generator_main L sched"
    if q': "q' (DKG_KeyShare resp) = Inr P" for q'
  proof -
    have same: "dkg_goroutine (L\<lparr>Q := q'\<rparr>) = dkg_goroutine L"
      by (intro ext) (simp add: dkg_goroutine_def Let_def cong: sum.case_cong)
    from q' slot have kq: "q' (dkg_keyShares ?g ! 0) = Inr P"
      by simp
    have "wallet_generator_key (L\<lparr>Q := q'\<rparr>) sched = wallet_generator_key L sched"
      by (simp add: wallet_generator_key_def Let_def same crv none q kq len)
    moreover have
      "wallet_generator_main (L\<lparr>Q := q'\<rparr>) sched = wallet_generator_main L sched"
      by (simp add: wallet_generator_main_def Let_def same crv none q kq len
          cong: sum.case_cong)
    ultimately show ?thesis using ok by simp
  qed
  from resp q slot ad pk len other show ?thesis by auto
qed

lemma wallet_generator_key_rejects:
  assumes sched: "is_schedule 3 sched"
    and p0: "dkg_party L (NewMockNetwork 3) 3 [''server'', ''kms'', ''pin''] Ed25519
               (createThresholdAccessStructure [''server'', ''kms'', ''pin''] 2 Ed25519) 0 = Inr resp"
    and bad: "Q L (DKG_KeyShare resp) = Inl e
              \<or> (Q L (DKG_KeyShare resp) = Inr P \<and> length (GetX L P) \<noteq> 32)"
  shows "\<exists>e'. wallet_generator_key L sched = Inl e'"
proof (cases "wallet_generator_key L sched")
  case (Inl e')
  then show ?thesis by blast
next
  case (Inr printed)
  obtain address publicKey where "printed = (address, publicKey)" by (cases printed)
  with Inr have "wallet_generator_key L sched = Inr (address, publicKey)" by simp
  from wallet_generator_key_party_0 [OF sched this] p0 obtain P' where
    "Q L (DKG_KeyShare resp) = Inr P'" and "length (GetX L P') = 32"
    by auto
  with bad show ?thesis by auto
qed


lemma signer_performMPCSigning_signature_length:
  "signer_performMPCSigning L keygenOrder signOrder curve message = (None, sig) \<Longrightarrow>
   length sig = 64"
  by (auto simp add: signer_performMPCSigning_def Let_def
      split: sum.splits prod.splits option.splits if_splits)

lemma signWithMPC_receiver:
  assumes ok: "signWithMPC C L keygenOrder signOrder t = (None, t')"
    and fresh: "MPCSignature t = []"
  shows "\<exists>messageToSign keyShares resp.
           Message_MarshalBinary L (Transaction t) = Inr messageToSign
         \<and> collect_keyShares
             (map (keygen_goroutine L (NewMockNetwork 3) 3
                     [''server'', ''pin-device'', ''offline-kms''] Ed25519) keygenOrder)
             (replicate 3 (zero_EDDSAMPCKey L)) = Inr keyShares
         \<and> sign_party L (NewMockNetwork 3) 3 [''server'', ''pin-device'', ''offline-kms'']
             keyShares messageToSign 0 0 = Inr resp
         \<and> t' = t\<lparr>MPCSignature := Signature resp\<rparr>"
proof -
  from signWithMPC_None [OF ok] obtain messageToSign crv keyShares where
    m: "Message_MarshalBinary L (Transaction t) = Inr messageToSign"
    and k: "collect_keyShares
             (map (keygen_goroutine L (NewMockNetwork 3) 3
                     [''server'', ''pin-device'', ''offline-kms''] crv) keygenOrder)
             (replicate 3 (zero_EDDSAMPCKey L)) = Inr keyShares"
    and s: "collect_signature
             (map (signCh_goroutine L (NewMockNetwork 3) 3
                     [''server'', ''pin-device'', ''offline-kms''] keyShares messageToSign 0)
                signOrder) 0 t = (None, t')"
    and len: "length (MPCSignature t') = 64"
    by blast
  have crv: "crv = Ed25519" by (cases crv) simp
  from len fresh have "t' \<noteq> t" by auto
  with collect_signature_None [OF s] obtain resp where
    "sign_party L (NewMockNetwork 3) 3 [''server'', ''pin-device'', ''offline-kms'']
       keyShares messageToSign 0 0 = Inr resp"
    and "t' = t\<lparr>MPCSignature := Signature resp\<rparr>"
    by blast
  with m k crv show ?thesis by blast
qed




subsection \<open>The claims\<close>

text \<open>
  C3. For the 2-of-3 access structure that \<open>createThresholdAccessStructure\<close> builds over
  the party names server, kms, pin with threshold 2, \<open>satisfies\<close> is true for the subsets
  {server, pin}, {server, kms}, {pin, kms} and {server, kms, pin}, and false for {server}
  and for the empty subset.
\<close>

theorem two_of_three_satisfies:
  "satisfies (Root (createThresholdAccessStructure [''server'', ''kms'', ''pin''] 2 Ed25519))
     [''server'', ''pin'']
   \<and> satisfies (Root (createThresholdAccessStructure [''server'', ''kms'', ''pin''] 2 Ed25519))
     [''server'', ''kms'']
   \<and> satisfies (Root (createThresholdAccessStructure [''server'', ''kms'', ''pin''] 2 Ed25519))
     [''pin'', ''kms'']
   \<and> satisfies (Root (createThresholdAccessStructure [''server'', ''kms'', ''pin''] 2 Ed25519))
     [''server'', ''kms'', ''pin'']
   \<and> \<not> satisfies (Root (createThresholdAccessStructure [''server'', ''kms'', ''pin''] 2 Ed25519))
     [''server'']
   \<and> \<not> satisfies (Root (createThresholdAccessStructure [''server'', ''kms'', ''pin''] 2 Ed25519))
     []"
  by (simp add: createThresholdAccessStructure_def)

text \<open>
  C1. Every signing path rejects a finalized signature whose length is not 64 bytes before
  returning it; this is claimed of \<^verbatim>\<open>performMPCSigning\<close> of the complete demo and of
  \<^verbatim>\<open>signWithMPC\<close> of the real transfer. \<^verbatim>\<open>signWithMPC\<close> does so
  (\<open>signWithMPC_signature_length\<close>), as does the transaction signer
  (\<open>signer_performMPCSigning_signature_length\<close>); the complete demo tests only for the
  empty signature: when the receiver's signing call returns 63 bytes,
  \<open>performMPCSigning\<close> returns these 63 bytes as its result.
\<close>

theorem complete_demo_returns_short_signature:
  "performMPCSigning (sim_lib (replicate 63 7) []) [0, 1] (bytes_of_string ''test'')
     = Inr (replicate 63 7)
   \<and> length (replicate 63 (7 :: byte)) \<noteq> 64"
  by (simp add: performMPCSigning_def performMPCSigning_body_def sim_lib_def run_signing_def
      sign_goroutine_def NewMockNetwork_def ToAdditiveShare_spec_def
      createThresholdAccessStructure_def Let_def)

text \<open>
  C2, as stated: the wallet generator compares the public keys \<open>Q\<close> of all parties' key
  shares and rejects a run in which two of them differ. It does not: in this run party 0
  holds share 10 and party 1 share 11, their public keys differ, and the generator
  accepts the run and reports the key of party 0.
\<close>

theorem generator_accepts_differing_Q:
  "wallet_generator_main (sim_lib [] []) [0, 1, 2]
     = Inr \<lparr>out_solanaAddress = replicate 32 10, out_publicKeyBytes = replicate 32 10,
            out_s1Base64 = ''A'', out_s2Base64 = ''A'', out_s3Base64 = ''A''\<rparr>
   \<and> dkg_party (sim_lib [] []) (NewMockNetwork 3) 3 [''server'', ''kms'', ''pin''] Ed25519
       (createThresholdAccessStructure [''server'', ''kms'', ''pin''] 2 Ed25519) 0
     = Inr \<lparr>DKG_KeyShare = 10\<rparr>
   \<and> dkg_party (sim_lib [] []) (NewMockNetwork 3) 3 [''server'', ''kms'', ''pin''] Ed25519
       (createThresholdAccessStructure [''server'', ''kms'', ''pin''] 2 Ed25519) 1
     = Inr \<lparr>DKG_KeyShare = 11\<rparr>
   \<and> Q (sim_lib [] []) 10 = Inr 10
   \<and> Q (sim_lib [] []) 11 = Inr 11
   \<and> GetX (sim_lib [] []) 10 \<noteq> GetX (sim_lib [] []) 11"
  by (simp add: wallet_generator_main_def sim_lib_def dkg_goroutine_def dkg_party_def
      NewMockNetwork_def createThresholdAccessStructure_def Let_def)

text \<open>
  C2, amended: the wallet generator reads \<open>Q\<close> only from the key share that party 0's
  key generation returned. It ends with a fatal error when that call fails or when the X
  coordinate is not 32 bytes; otherwise it prints that X coordinate as address and as
  public key (before the shares are serialised, so also in a run that then ends in a
  failing \<^verbatim>\<open>MarshalBinary\<close>), and every wallet it completes carries that value as
  address and as public key. The \<open>Q\<close> of the other key shares is not read or compared:
  the outcome is the same whatever \<open>Q\<close> returns elsewhere.
\<close>

theorem generator_reports_Q_of_party_0:
  assumes sched: "is_schedule 3 sched"
  shows
   "(wallet_generator_main L sched = Inr w \<longrightarrow>
       wallet_generator_key L sched = Inr (out_solanaAddress w, out_publicKeyBytes w)
     \<and> (\<exists>resp P.
           dkg_party L (NewMockNetwork 3) 3 [''server'', ''kms'', ''pin''] Ed25519
             (createThresholdAccessStructure [''server'', ''kms'', ''pin''] 2 Ed25519) 0 = Inr resp
         \<and> Q L (DKG_KeyShare resp) = Inr P
         \<and> out_solanaAddress w = GetX L P
         \<and> out_publicKeyBytes w = GetX L P
         \<and> length (out_solanaAddress w) = 32
         \<and> length (out_publicKeyBytes w) = 32
         \<and> (\<forall>q. q (DKG_KeyShare resp) = Inr P \<longrightarrow>
                wallet_generator_main (L\<lparr>Q := q\<rparr>) sched = Inr w)))
    \<and> (wallet_generator_key L sched = Inr (address, publicKey) \<longrightarrow>
       (\<exists>resp P.
           dkg_party L (NewMockNetwork 3) 3 [''server'', ''kms'', ''pin''] Ed25519
             (createThresholdAccessStructure [''server'', ''kms'', ''pin''] 2 Ed25519) 0 = Inr resp
         \<and> Q L (DKG_KeyShare resp) = Inr P
         \<and> address = GetX L P
         \<and> publicKey = GetX L P
         \<and> length (GetX L P) = 32
         \<and> (\<forall>q. q (DKG_KeyShare resp) = Inr P \<longrightarrow>
                wallet_generator_key (L\<lparr>Q := q\<rparr>) sched = Inr (address, publicKey))))
    \<and> (dkg_party L (NewMockNetwork 3) 3 [''server'', ''kms'', ''pin''] Ed25519
          (createThresholdAccessStructure [''server'', ''kms'', ''pin''] 2 Ed25519) 0 = Inr resp0
        \<and> (Q L (DKG_KeyShare resp0) = Inl e
             \<or> (Q L (DKG_KeyShare resp0) = Inr P0 \<and> length (GetX L P0) \<noteq> 32)) \<longrightarrow>
       (\<exists>e'. wallet_generator_key L sched = Inl e' \<and> wallet_generator_main L sched = Inl e'))"
proof (intro conjI impI)
  assume ok: "wallet_generator_main L sched = Inr w"
  from wallet_generator_main_key [OF ok]
  show key: "wallet_generator_key L sched = Inr (out_solanaAddress w, out_publicKeyBytes w)" .
  from wallet_generator_key_party_0 [OF sched key] ok
  show "\<exists>resp P.
           dkg_party L (NewMockNetwork 3) 3 [''server'', ''kms'', ''pin''] Ed25519
             (createThresholdAccessStructure [''server'', ''kms'', ''pin''] 2 Ed25519) 0 = Inr resp
         \<and> Q L (DKG_KeyShare resp) = Inr P
         \<and> out_solanaAddress w = GetX L P
         \<and> out_publicKeyBytes w = GetX L P
         \<and> length (out_solanaAddress w) = 32
         \<and> length (out_publicKeyBytes w) = 32
         \<and> (\<forall>q. q (DKG_KeyShare resp) = Inr P \<longrightarrow>
                wallet_generator_main (L\<lparr>Q := q\<rparr>) sched = Inr w)"
    by (elim exE conjE, intro exI conjI) (assumption | simp)+
next
  assume "wallet_generator_key L sched = Inr (address, publicKey)"
  from wallet_generator_key_party_0 [OF sched this]
  show "\<exists>resp P.
           dkg_party L (NewMockNetwork 3) 3 [''server'', ''kms'', ''pin''] Ed25519
             (createThresholdAccessStructure [''server'', ''kms'', ''pin''] 2 Ed25519) 0 = Inr resp
         \<and> Q L (DKG_KeyShare resp) = Inr P
         \<and> address = GetX L P
         \<and> publicKey = GetX L P
         \<and> length (GetX L P) = 32
         \<and> (\<forall>q. q (DKG_KeyShare resp) = Inr P \<longrightarrow>
                wallet_generator_key (L\<lparr>Q := q\<rparr>) sched = Inr (address, publicKey))"
    by blast
next
  assume a: "dkg_party L (NewMockNetwork 3) 3 [''server'', ''kms'', ''pin''] Ed25519
          (createThresholdAccessStructure [''server'', ''kms'', ''pin''] 2 Ed25519) 0 = Inr resp0
        \<and> (Q L (DKG_KeyShare resp0) = Inl e
             \<or> (Q L (DKG_KeyShare resp0) = Inr P0 \<and> length (GetX L P0) \<noteq> 32))"
  then have p0: "dkg_party L (NewMockNetwork 3) 3 [''server'', ''kms'', ''pin''] Ed25519
          (createThresholdAccessStructure [''server'', ''kms'', ''pin''] 2 Ed25519) 0 = Inr resp0"
    and bad: "Q L (DKG_KeyShare resp0) = Inl e
             \<or> (Q L (DKG_KeyShare resp0) = Inr P0 \<and> length (GetX L P0) \<noteq> 32)"
    by simp_all
  from wallet_generator_key_rejects [OF sched p0 bad] obtain e' where
    "wallet_generator_key L sched = Inl e'" by blast
  with wallet_generator_key_main [OF this]
  show "\<exists>e'. wallet_generator_key L sched = Inl e' \<and> wallet_generator_main L sched = Inl e'"
    by blast
qed

theorem generator_reports_Q_of_party_0_witness:
  "is_schedule 3 [2, 0, 1]
   \<and> wallet_generator_main (sim_lib [] []) [2, 0, 1]
       = Inr \<lparr>out_solanaAddress = replicate 32 10, out_publicKeyBytes = replicate 32 10,
              out_s1Base64 = ''A'', out_s2Base64 = ''A'', out_s3Base64 = ''A''\<rparr>
   \<and> wallet_generator_key (sim_lib [] []) [2, 0, 1] = Inr (replicate 32 10, replicate 32 10)
   \<and> (\<exists>resp P.
         dkg_party (sim_lib [] []) (NewMockNetwork 3) 3 [''server'', ''kms'', ''pin''] Ed25519
           (createThresholdAccessStructure [''server'', ''kms'', ''pin''] 2 Ed25519) 0 = Inr resp
       \<and> Q (sim_lib [] []) (DKG_KeyShare resp) = Inr P
       \<and> replicate 32 10 = GetX (sim_lib [] []) P)
   \<and> wallet_generator_key
       ((sim_lib [] [])\<lparr>MarshalBinary := (\<lambda>k. Inl (LibError ''marshal failed''))\<rparr>) [2, 0, 1]
     = Inr (replicate 32 10, replicate 32 10)
   \<and> wallet_generator_main
       ((sim_lib [] [])\<lparr>MarshalBinary := (\<lambda>k. Inl (LibError ''marshal failed''))\<rparr>) [2, 0, 1]
     = Inl (Errorf ''Failed to marshal S1 share:'' [] (Some (LibError ''marshal failed'')))
   \<and> (\<exists>resp P.
         dkg_party ((sim_lib [] [])\<lparr>MarshalBinary := (\<lambda>k. Inl (LibError ''marshal failed''))\<rparr>)
           (NewMockNetwork 3) 3 [''server'', ''kms'', ''pin''] Ed25519
           (createThresholdAccessStructure [''server'', ''kms'', ''pin''] 2 Ed25519) 0 = Inr resp
       \<and> Q ((sim_lib [] [])\<lparr>MarshalBinary := (\<lambda>k. Inl (LibError ''marshal failed''))\<rparr>)
           (DKG_KeyShare resp) = Inr P
       \<and> replicate 32 10
           = GetX ((sim_lib [] [])\<lparr>MarshalBinary := (\<lambda>k. Inl (LibError ''marshal failed''))\<rparr>) P)
   \<and> dkg_party ((sim_lib [] [])\<lparr>Q := (\<lambda>k. Inl (LibError ''no point''))\<rparr>)
       (NewMockNetwork 3) 3 [''server'', ''kms'', ''pin''] Ed25519
       (createThresholdAccessStructure [''server'', ''kms'', ''pin''] 2 Ed25519) 0
     = Inr \<lparr>DKG_KeyShare = 10\<rparr>
   \<and> Q ((sim_lib [] [])\<lparr>Q := (\<lambda>k. Inl (LibError ''no point''))\<rparr>) 10
     = Inl (LibError ''no point'')
   \<and> (\<exists>e'. wallet_generator_key ((sim_lib [] [])\<lparr>Q := (\<lambda>k. Inl (LibError ''no point''))\<rparr>)
               [2, 0, 1] = Inl e'
           \<and> wallet_generator_main ((sim_lib [] [])\<lparr>Q := (\<lambda>k. Inl (LibError ''no point''))\<rparr>)
               [2, 0, 1] = Inl e')"
proof -
  let ?L = "sim_lib [] []"
  let ?M = "(sim_lib [] [])\<lparr>MarshalBinary := (\<lambda>k. Inl (LibError ''marshal failed''))\<rparr>"
  let ?N = "(sim_lib [] [])\<lparr>Q := (\<lambda>k. Inl (LibError ''no point''))\<rparr>"
  let ?w = "\<lparr>out_solanaAddress = replicate 32 10, out_publicKeyBytes = replicate 32 10,
              out_s1Base64 = ''A'', out_s2Base64 = ''A'', out_s3Base64 = ''A''\<rparr>"
  have s: "is_schedule 3 [2, 0, 1]"
    by (simp add: is_schedule_def upt_rec)
  note q0 = generator_reports_Q_of_party_0 [OF s]
  have r: "wallet_generator_main ?L [2, 0, 1] = Inr ?w"
    by (simp add: wallet_generator_main_def sim_lib_def dkg_goroutine_def
        NewMockNetwork_def createThresholdAccessStructure_def Let_def)
  from q0 [where L = ?L and w = ?w, THEN conjunct1] r
  have c1: "wallet_generator_key ?L [2, 0, 1] = Inr (out_solanaAddress ?w, out_publicKeyBytes ?w)
     \<and> (\<exists>resp P.
           dkg_party ?L (NewMockNetwork 3) 3 [''server'', ''kms'', ''pin''] Ed25519
             (createThresholdAccessStructure [''server'', ''kms'', ''pin''] 2 Ed25519) 0 = Inr resp
         \<and> Q ?L (DKG_KeyShare resp) = Inr P
         \<and> out_solanaAddress ?w = GetX ?L P
         \<and> out_publicKeyBytes ?w = GetX ?L P
         \<and> length (out_solanaAddress ?w) = 32
         \<and> length (out_publicKeyBytes ?w) = 32
         \<and> (\<forall>q. q (DKG_KeyShare resp) = Inr P \<longrightarrow>
                wallet_generator_main (?L\<lparr>Q := q\<rparr>) [2, 0, 1] = Inr ?w))"
    by (rule mp)
  from c1 have k: "wallet_generator_key ?L [2, 0, 1] = Inr (replicate 32 10, replicate 32 10)"
    by simp
  from c1 obtain resp P where
    "dkg_party ?L (NewMockNetwork 3) 3 [''server'', ''kms'', ''pin''] Ed25519
       (createThresholdAccessStructure [''server'', ''kms'', ''pin''] 2 Ed25519) 0 = Inr resp"
    and "Q ?L (DKG_KeyShare resp) = Inr P"
    and "out_solanaAddress ?w = GetX ?L P"
    by blast
  then have p: "\<exists>resp P.
         dkg_party ?L (NewMockNetwork 3) 3 [''server'', ''kms'', ''pin''] Ed25519
           (createThresholdAccessStructure [''server'', ''kms'', ''pin''] 2 Ed25519) 0 = Inr resp
       \<and> Q ?L (DKG_KeyShare resp) = Inr P
       \<and> replicate 32 10 = GetX ?L P"
    by (intro exI [of _ resp] exI [of _ P]) simp
  have mk: "wallet_generator_key ?M [2, 0, 1] = Inr (replicate 32 10, replicate 32 10)"
    by (simp add: wallet_generator_key_def sim_lib_def dkg_goroutine_def
        NewMockNetwork_def createThresholdAccessStructure_def Let_def)
  have mm: "wallet_generator_main ?M [2, 0, 1]
     = Inl (Errorf ''Failed to marshal S1 share:'' [] (Some (LibError ''marshal failed'')))"
    by (simp add: wallet_generator_main_def sim_lib_def dkg_goroutine_def
        NewMockNetwork_def createThresholdAccessStructure_def Let_def)
  from q0 [where L = ?M and address = "replicate 32 10" and publicKey = "replicate 32 10",
      THEN conjunct2, THEN conjunct1] mk
  have "\<exists>resp P.
           dkg_party ?M (NewMockNetwork 3) 3 [''server'', ''kms'', ''pin''] Ed25519
             (createThresholdAccessStructure [''server'', ''kms'', ''pin''] 2 Ed25519) 0 = Inr resp
         \<and> Q ?M (DKG_KeyShare resp) = Inr P
         \<and> replicate 32 10 = GetX ?M P
         \<and> replicate 32 10 = GetX ?M P
         \<and> length (GetX ?M P) = 32
         \<and> (\<forall>q. q (DKG_KeyShare resp) = Inr P \<longrightarrow>
                wallet_generator_key (?M\<lparr>Q := q\<rparr>) [2, 0, 1]
                  = Inr (replicate 32 10, replicate 32 10))"
    by (rule mp)
  then have mp: "\<exists>resp P.
         dkg_party ?M (NewMockNetwork 3) 3 [''server'', ''kms'', ''pin''] Ed25519
           (createThresholdAccessStructure [''server'', ''kms'', ''pin''] 2 Ed25519) 0 = Inr resp
       \<and> Q ?M (DKG_KeyShare resp) = Inr P
       \<and> replicate 32 10 = GetX ?M P"
    by blast
  have np: "dkg_party ?N (NewMockNetwork 3) 3 [''server'', ''kms'', ''pin''] Ed25519
       (createThresholdAccessStructure [''server'', ''kms'', ''pin''] 2 Ed25519) 0
     = Inr \<lparr>DKG_KeyShare = 10\<rparr>"
    by (simp add: dkg_party_def sim_lib_def NewMockNetwork_def)
  have nq: "Q ?N 10 = Inl (LibError ''no point'')"
    by simp
  have nq': "Q ?N (DKG_KeyShare \<lparr>DKG_KeyShare = (10 :: nat)\<rparr>) = Inl (LibError ''no point'')"
    by simp
  from np nq' have nb: "dkg_party ?N (NewMockNetwork 3) 3 [''server'', ''kms'', ''pin''] Ed25519
          (createThresholdAccessStructure [''server'', ''kms'', ''pin''] 2 Ed25519) 0
          = Inr \<lparr>DKG_KeyShare = 10\<rparr>
        \<and> (Q ?N (DKG_KeyShare \<lparr>DKG_KeyShare = (10 :: nat)\<rparr>) = Inl (LibError ''no point'')
             \<or> (Q ?N (DKG_KeyShare \<lparr>DKG_KeyShare = (10 :: nat)\<rparr>) = Inr 0
                 \<and> length (GetX ?N 0) \<noteq> 32))"
    by blast
  from q0 [where L = ?N and ?resp0.0 = "\<lparr>DKG_KeyShare = 10\<rparr>"
      and e = "LibError ''no point''" and ?P0.0 = 0, THEN conjunct2, THEN conjunct2] nb
  have nr: "\<exists>e'. wallet_generator_key ?N [2, 0, 1] = Inl e'
           \<and> wallet_generator_main ?N [2, 0, 1] = Inl e'"
    by blast
  from s r k p mk mm mp np nq nr show ?thesis by blast
qed

text \<open>
  C4. Share conversion with a quorum that does not satisfy the access structure fails with
  \<open>UnauthorizedQuorum\<close> before any cryptographic or network work; with a quorum that
  satisfies it, the additive share for exactly that quorum is produced. For the caller,
  \<^verbatim>\<open>performMPCSigning\<close>: with such a library and a quorum that does not satisfy the
  2-of-3 policy, the function returns the conversion error of the first share whatever
  job creation and the signing call would do, and with a quorum that satisfies it the
  signing run gets the two additive shares of that quorum.
\<close>

theorem share_conversion_checks_quorum:
  "(\<not> satisfies (Root ac) quorum \<longrightarrow>
      ToAdditiveShare_spec derive keyShare ac quorum = Inl UnauthorizedQuorum)
   \<and> (satisfies (Root ac) quorum \<longrightarrow>
      ToAdditiveShare_spec derive keyShare ac quorum = Inr (derive keyShare ac quorum))
   \<and> (ToAdditiveShare L = ToAdditiveShare_spec derive
      \<and> UnmarshalBinary L (fst (base64_DecodeString L s1)) = Inr s1Key
      \<and> UnmarshalBinary L (fst (base64_DecodeString L s3)) = Inr s3Key
      \<and> NewEd25519 L = Inr Ed25519 \<longrightarrow>
        (\<not> satisfies (Root (createThresholdAccessStructure [''server'', ''kms'', ''pin''] 2
              Ed25519)) quorum \<longrightarrow>
           performMPCSigning_body (L\<lparr>NewJobMP := newJob, EDDSAMPCSign := sign\<rparr>) sched s1 s3
             pin quorum message
           = Inl (Errorf ''could not convert s1 to additive share: %w'' []
                    (Some UnauthorizedQuorum)))
      \<and> (satisfies (Root (createThresholdAccessStructure [''server'', ''kms'', ''pin''] 2
              Ed25519)) quorum \<longrightarrow>
           performMPCSigning_body L sched s1 s3 pin quorum message
           = run_signing L sched [''server'', ''kms'', ''pin'']
               [derive s1Key (createThresholdAccessStructure [''server'', ''kms'', ''pin''] 2
                  Ed25519) quorum,
                derive s3Key (createThresholdAccessStructure [''server'', ''kms'', ''pin''] 2
                  Ed25519) quorum]
               message))"
  by (simp add: ToAdditiveShare_spec_def performMPCSigning_body_def Let_def)

theorem share_conversion_checks_quorum_witness:
  "\<not> satisfies (Root (createThresholdAccessStructure [''server'', ''kms'', ''pin''] 2 Ed25519))
       [''server'']
   \<and> satisfies (Root (createThresholdAccessStructure [''server'', ''kms'', ''pin''] 2 Ed25519))
       [''server'', ''pin'']
   \<and> ToAdditiveShare_spec (\<lambda>k ac quorum. k) (7 :: nat)
       (createThresholdAccessStructure [''server'', ''kms'', ''pin''] 2 Ed25519) [''server'']
     = Inl UnauthorizedQuorum
   \<and> ToAdditiveShare_spec (\<lambda>k ac quorum. k) (7 :: nat)
       (createThresholdAccessStructure [''server'', ''kms'', ''pin''] 2 Ed25519)
       [''server'', ''pin'']
     = Inr 7
   \<and> performMPCSigning_body
       (sim_lib (replicate 64 7) []
          \<lparr>NewJobMP := (\<lambda>m n i names. Inl (LibError ''unreachable'')),
           EDDSAMPCSign := (\<lambda>job req. Inl (LibError ''unreachable''))\<rparr>)
       [0, 1] s1ShareData s3ShareData ''123456'' [''server''] (bytes_of_string ''test'')
     = Inl (Errorf ''could not convert s1 to additive share: %w'' [] (Some UnauthorizedQuorum))
   \<and> performMPCSigning_body (sim_lib (replicate 64 7) []) [0, 1] s1ShareData s3ShareData
       ''123456'' [''server'', ''pin''] (bytes_of_string ''test'')
     = run_signing (sim_lib (replicate 64 7) []) [0, 1] [''server'', ''kms'', ''pin''] [7, 7]
         (bytes_of_string ''test'')"
proof -
  let ?ac = "createThresholdAccessStructure [''server'', ''kms'', ''pin''] 2 Ed25519"
  let ?L = "sim_lib (replicate 64 7) []"
  have no: "\<not> satisfies (Root ?ac) [''server'']"
    and yes: "satisfies (Root ?ac) [''server'', ''pin'']"
    by (simp_all add: createThresholdAccessStructure_def)
  have lib: "ToAdditiveShare ?L = ToAdditiveShare_spec (\<lambda>k ac quorum. k)
      \<and> UnmarshalBinary ?L (fst (base64_DecodeString ?L s1ShareData)) = Inr 7
      \<and> UnmarshalBinary ?L (fst (base64_DecodeString ?L s3ShareData)) = Inr 7
      \<and> NewEd25519 ?L = Inr Ed25519"
    by (simp add: sim_lib_def)
  note conv = share_conversion_checks_quorum
  from conv [of ?ac "[''server'']" "\<lambda>k ac quorum. k" "7 :: nat"] no
  have a: "ToAdditiveShare_spec (\<lambda>k ac quorum. k) (7 :: nat) ?ac [''server'']
      = Inl UnauthorizedQuorum" by blast
  from conv [of ?ac "[''server'', ''pin'']" "\<lambda>k ac quorum. k" "7 :: nat"] yes
  have b: "ToAdditiveShare_spec (\<lambda>k ac quorum. k) (7 :: nat) ?ac [''server'', ''pin'']
      = Inr 7" by blast
  from conv [where ac = ?ac and quorum = "[''server'']" and derive = "\<lambda>k ac quorum. k"
      and L = ?L and ?s1.0 = s1ShareData and ?s3.0 = s3ShareData and s1Key = 7 and s3Key = 7
      and newJob = "\<lambda>m n i names. Inl (LibError ''unreachable'')"
      and sign = "\<lambda>job req. Inl (LibError ''unreachable'')" and sched = "[0, 1]"
      and pin = "''123456''" and message = "bytes_of_string ''test''"] lib no
  have c: "performMPCSigning_body
       (?L\<lparr>NewJobMP := (\<lambda>m n i names. Inl (LibError ''unreachable'')),
           EDDSAMPCSign := (\<lambda>job req. Inl (LibError ''unreachable''))\<rparr>)
       [0, 1] s1ShareData s3ShareData ''123456'' [''server''] (bytes_of_string ''test'')
     = Inl (Errorf ''could not convert s1 to additive share: %w'' [] (Some UnauthorizedQuorum))"
    by blast
  from conv [where ac = ?ac and quorum = "[''server'', ''pin'']"
      and derive = "\<lambda>k ac quorum. k"
      and L = ?L and ?s1.0 = s1ShareData and ?s3.0 = s3ShareData and s1Key = 7 and s3Key = 7
      and sched = "[0, 1]" and pin = "''123456''" and message = "bytes_of_string ''test''"]
    lib yes
  have d: "performMPCSigning_body ?L [0, 1] s1ShareData s3ShareData
       ''123456'' [''server'', ''pin''] (bytes_of_string ''test'')
     = run_signing ?L [0, 1] [''server'', ''kms'', ''pin''] [7, 7] (bytes_of_string ''test'')"
    by blast
  from no yes a b c d show ?thesis by blast
qed

text \<open>
  C5. In every signing run that succeeds, the signature handed to the caller is the one in
  the protocol response of the quorum member whose party index is the receiver index
  (0 in both programs); the responses of the other members are not used. This holds for
  \<^verbatim>\<open>performMPCSigning\<close> of the complete demo and, for a transfer that carries no
  signature yet (as \<^verbatim>\<open>main\<close> builds it), for \<^verbatim>\<open>signWithMPC\<close> of the real
  transfer.
\<close>

theorem final_signature_is_the_receivers:
  "(performMPCSigning L sched message = Inr sig \<longrightarrow>
      (\<exists>s1Add s3Add resp.
          sign_party L (NewMockNetwork 2) 3 [''server'', ''kms'', ''pin''] [s1Add, s3Add]
            message 0 0 = Inr resp
        \<and> sig = Signature resp))
   \<and> (signWithMPC C L keygenOrder signOrder transfer = (None, transfer')
        \<and> MPCSignature transfer = [] \<longrightarrow>
      (\<exists>messageToSign keyShares resp.
          Message_MarshalBinary L (Transaction transfer) = Inr messageToSign
        \<and> sign_party L (NewMockNetwork 3) 3 [''server'', ''pin-device'', ''offline-kms'']
            keyShares messageToSign 0 0 = Inr resp
        \<and> transfer' = transfer\<lparr>MPCSignature := Signature resp\<rparr>))"
proof (intro conjI impI)
  assume "performMPCSigning L sched message = Inr sig"
  then obtain s1Add s3Add where
    "run_signing L sched [''server'', ''kms'', ''pin''] [s1Add, s3Add] message = Inr sig"
    unfolding performMPCSigning_def using performMPCSigning_body_Inr by blast
  from run_signing_Inr [OF this] obtain resp where
    "sign_party L (NewMockNetwork (length [s1Add, s3Add])) 3 [''server'', ''kms'', ''pin'']
       [s1Add, s3Add] message 0 0 = Inr resp"
    and "sig = Signature resp"
    by blast
  moreover have "length [s1Add, s3Add] = 2" by simp
  ultimately show "\<exists>s1Add s3Add resp.
          sign_party L (NewMockNetwork 2) 3 [''server'', ''kms'', ''pin''] [s1Add, s3Add]
            message 0 0 = Inr resp
        \<and> sig = Signature resp"
    by metis
next
  assume "signWithMPC C L keygenOrder signOrder transfer = (None, transfer')
        \<and> MPCSignature transfer = []"
  then have ok: "signWithMPC C L keygenOrder signOrder transfer = (None, transfer')"
    and fresh: "MPCSignature transfer = []"
    by simp_all
  from signWithMPC_receiver [OF ok fresh]
  show "\<exists>messageToSign keyShares resp.
          Message_MarshalBinary L (Transaction transfer) = Inr messageToSign
        \<and> sign_party L (NewMockNetwork 3) 3 [''server'', ''pin-device'', ''offline-kms'']
            keyShares messageToSign 0 0 = Inr resp
        \<and> transfer' = transfer\<lparr>MPCSignature := Signature resp\<rparr>"
    by blast
qed

theorem final_signature_is_the_receivers_witness:
  "performMPCSigning (sim_lib (replicate 64 7) []) [1, 0] (bytes_of_string ''test'')
     = Inr (replicate 64 7)
   \<and> signWithMPC real_transfer_consts (sim_lib (replicate 64 7) []) [1, 0, 2] [2, 1, 0]
       fresh_transfer
     = (None, fresh_transfer\<lparr>MPCSignature := replicate 64 7\<rparr>)
   \<and> MPCSignature fresh_transfer = []
   \<and> (\<exists>s1Add s3Add resp.
          sign_party (sim_lib (replicate 64 7) []) (NewMockNetwork 2) 3
            [''server'', ''kms'', ''pin''] [s1Add, s3Add] (bytes_of_string ''test'') 0 0
            = Inr resp
        \<and> replicate 64 7 = Signature resp)
   \<and> (\<exists>messageToSign keyShares resp.
          Message_MarshalBinary (sim_lib (replicate 64 7) []) (Transaction fresh_transfer)
            = Inr messageToSign
        \<and> sign_party (sim_lib (replicate 64 7) []) (NewMockNetwork 3) 3
            [''server'', ''pin-device'', ''offline-kms''] keyShares messageToSign 0 0 = Inr resp
        \<and> fresh_transfer\<lparr>MPCSignature := replicate 64 7\<rparr>
            = fresh_transfer\<lparr>MPCSignature := Signature resp\<rparr>)"
proof -
  let ?L = "sim_lib (replicate 64 7) []"
  have a: "performMPCSigning ?L [1, 0] (bytes_of_string ''test'') = Inr (replicate 64 7)"
    by (simp add: performMPCSigning_def performMPCSigning_body_def sim_lib_def run_signing_def
        sign_goroutine_def NewMockNetwork_def ToAdditiveShare_spec_def
        createThresholdAccessStructure_def Let_def)
  have b: "signWithMPC real_transfer_consts ?L [1, 0, 2] [2, 1, 0] fresh_transfer
     = (None, fresh_transfer\<lparr>MPCSignature := replicate 64 7\<rparr>)"
    by (simp add: signWithMPC_def sim_lib_def keygen_goroutine_def signCh_goroutine_def
        NewMockNetwork_def fresh_transfer_def Let_def)
  have c: "MPCSignature fresh_transfer = []"
    by (simp add: fresh_transfer_def)
  note recv = final_signature_is_the_receivers
    [where L = ?L and sched = "[1, 0]" and message = "bytes_of_string ''test''"
       and sig = "replicate 64 7" and C = real_transfer_consts and keygenOrder = "[1, 0, 2]"
       and signOrder = "[2, 1, 0]" and transfer = fresh_transfer
       and transfer' = "fresh_transfer\<lparr>MPCSignature := replicate 64 7\<rparr>"]
  from recv a b c show ?thesis by blast
qed

text \<open>
  C6. A multi-party run is atomic at the orchestration layer: when the task of at least
  one party returns an error, the run is reported as failed and neither a signature nor
  key shares are returned. For the signing run of \<^verbatim>\<open>performMPCSigning\<close> (to which
  every success of that function is due) and for the key generation of the wallet
  generator's \<^verbatim>\<open>main\<close>, under every order in which the goroutines return.
\<close>

theorem failed_party_fails_the_run:
  "(is_schedule (length parties) sched \<and> i < length parties
      \<and> sign_party L (NewMockNetwork (length parties)) 3 partyNames parties message 0 i = Inl e
      \<longrightarrow> (\<exists>e'. run_signing L sched partyNames parties message = Inl e'))
   \<and> (performMPCSigning L sched message = Inr sig \<longrightarrow>
        (\<exists>s1Add s3Add.
            run_signing L sched [''server'', ''kms'', ''pin''] [s1Add, s3Add] message = Inr sig))
   \<and> (is_schedule 3 sched \<and> i < 3
      \<and> dkg_party L (NewMockNetwork 3) 3 [''server'', ''kms'', ''pin''] Ed25519
          (createThresholdAccessStructure [''server'', ''kms'', ''pin''] 2 Ed25519) i = Inl e
      \<longrightarrow> (\<exists>e'. wallet_generator_main L sched = Inl e'))"
proof (intro conjI impI)
  assume a: "is_schedule (length parties) sched \<and> i < length parties
      \<and> sign_party L (NewMockNetwork (length parties)) 3 partyNames parties message 0 i = Inl e"
  then have "i \<in> set sched" using is_schedule_mem by blast
  with a show "\<exists>e'. run_signing L sched partyNames parties message = Inl e'"
    using run_signing_failed_party by blast
next
  assume "performMPCSigning L sched message = Inr sig"
  then show "\<exists>s1Add s3Add.
      run_signing L sched [''server'', ''kms'', ''pin''] [s1Add, s3Add] message = Inr sig"
    unfolding performMPCSigning_def using performMPCSigning_body_Inr by blast
next
  assume a: "is_schedule 3 sched \<and> i < 3
      \<and> dkg_party L (NewMockNetwork 3) 3 [''server'', ''kms'', ''pin''] Ed25519
          (createThresholdAccessStructure [''server'', ''kms'', ''pin''] 2 Ed25519) i = Inl e"
  then have "i \<in> set sched" using is_schedule_mem by blast
  with a show "\<exists>e'. wallet_generator_main L sched = Inl e'"
    using wallet_generator_main_failed_party by blast
qed

theorem failed_party_fails_the_run_witness:
  "is_schedule 2 [0, 1]
   \<and> sign_party (sim_lib (replicate 64 7) [1]) (NewMockNetwork 2) 3
       [''server'', ''kms'', ''pin''] [7, 7] (bytes_of_string ''test'') 0 1
     = Inl (LibError ''job creation failed'')
   \<and> (\<exists>e'. run_signing (sim_lib (replicate 64 7) [1]) [0, 1] [''server'', ''kms'', ''pin'']
               [7, 7] (bytes_of_string ''test'') = Inl e')
   \<and> performMPCSigning (sim_lib (replicate 64 7) [1]) [0, 1] (bytes_of_string ''test'')
     = Inl (LibError ''job creation failed'')
   \<and> performMPCSigning (sim_lib (replicate 64 7) []) [0, 1] (bytes_of_string ''test'')
     = Inr (replicate 64 7)
   \<and> (\<exists>s1Add s3Add.
         run_signing (sim_lib (replicate 64 7) []) [0, 1] [''server'', ''kms'', ''pin'']
           [s1Add, s3Add] (bytes_of_string ''test'') = Inr (replicate 64 7))
   \<and> is_schedule 3 [0, 1, 2]
   \<and> dkg_party (sim_lib (replicate 64 7) [1]) (NewMockNetwork 3) 3
       [''server'', ''kms'', ''pin''] Ed25519
       (createThresholdAccessStructure [''server'', ''kms'', ''pin''] 2 Ed25519) 1
     = Inl (LibError ''job creation failed'')
   \<and> (\<exists>e'. wallet_generator_main (sim_lib (replicate 64 7) [1]) [0, 1, 2] = Inl e')"
proof -
  let ?B = "sim_lib (replicate 64 7) [1]"
  let ?L = "sim_lib (replicate 64 7) []"
  let ?m = "bytes_of_string ''test''"
  have s2: "is_schedule 2 [0, 1]" and s3: "is_schedule 3 [0, 1, 2]"
    by (simp_all add: is_schedule_def upt_rec)
  have len2: "length [7 :: nat, 7] = 2" by simp
  have s2': "is_schedule (length [7 :: nat, 7]) [0, 1]" unfolding len2 by (rule s2)
  have lt2: "(1 :: nat) < length [7 :: nat, 7]" and lt3: "(1 :: nat) < 3" by simp_all
  have p': "sign_party ?B (NewMockNetwork 2) 3 [''server'', ''kms'', ''pin''] [7, 7] ?m 0 1
     = Inl (LibError ''job creation failed'')"
    by (simp add: sign_party_def sim_lib_def)
  have p: "sign_party ?B (NewMockNetwork (length [7 :: nat, 7])) 3
      [''server'', ''kms'', ''pin''] [7, 7] ?m 0 1 = Inl (LibError ''job creation failed'')"
    unfolding len2 by (rule p')
  have f: "performMPCSigning ?B [0, 1] ?m = Inl (LibError ''job creation failed'')"
    by (simp add: performMPCSigning_def performMPCSigning_body_def sim_lib_def run_signing_def
        sign_goroutine_def NewMockNetwork_def ToAdditiveShare_spec_def
        createThresholdAccessStructure_def Let_def)
  have g: "performMPCSigning ?L [0, 1] ?m = Inr (replicate 64 7)"
    by (simp add: performMPCSigning_def performMPCSigning_body_def sim_lib_def run_signing_def
        sign_goroutine_def NewMockNetwork_def ToAdditiveShare_spec_def
        createThresholdAccessStructure_def Let_def)
  have d: "dkg_party ?B (NewMockNetwork 3) 3 [''server'', ''kms'', ''pin''] Ed25519
       (createThresholdAccessStructure [''server'', ''kms'', ''pin''] 2 Ed25519) 1
     = Inl (LibError ''job creation failed'')"
    by (simp add: dkg_party_def sim_lib_def)
  note atomic = failed_party_fails_the_run
  from atomic [where parties = "[7, 7]" and sched = "[0, 1]" and i = 1 and L = ?B
      and partyNames = "[''server'', ''kms'', ''pin'']" and message = ?m
      and e = "LibError ''job creation failed''"] s2' lt2 p
  have r1: "\<exists>e'. run_signing ?B [0, 1] [''server'', ''kms'', ''pin''] [7, 7] ?m = Inl e'"
    by blast
  from atomic [where L = ?L and sched = "[0, 1]" and message = ?m and sig = "replicate 64 7"] g
  have r2: "\<exists>s1Add s3Add.
         run_signing ?L [0, 1] [''server'', ''kms'', ''pin''] [s1Add, s3Add] ?m
           = Inr (replicate 64 7)"
    by blast
  from atomic [where L = ?B and sched = "[0, 1, 2]" and i = 1
      and e = "LibError ''job creation failed''"] s3 lt3 d
  have r3: "\<exists>e'. wallet_generator_main ?B [0, 1, 2] = Inl e'"
    by blast
  from s2 s3 p' f g d r1 r2 r3 show ?thesis by blast
qed

text \<open>
  C7. The PIN-based key derivation is deterministic: with the same PIN, the fixed salt,
  100000 iterations and output length 32, two runs give the same 32 bytes. The two
  derivations of the programs (the complete demo and the transaction signer) pass the PIN
  and constants only, so two runs whose PBKDF2 is the same function derive the same key,
  whatever else differs between the runs; the key has 32 bytes when
  \<^verbatim>\<open>pbkdf2.Key\<close> returns as many bytes as it is asked for.
\<close>

theorem pin_derivation_deterministic:
  assumes "pbkdf2_Key L1 = pbkdf2_Key L2"
    and "pbkdf2_returns_keyLen L1"
  shows "derive_s3KeyBytes L1 pin = derive_s3KeyBytes L2 pin
       \<and> length (derive_s3KeyBytes L1 pin) = 32
       \<and> derive_pinKey L1 pin = derive_pinKey L2 pin
       \<and> length (derive_pinKey L1 pin) = 32"
  using assms
  by (simp add: derive_s3KeyBytes_def derive_pinKey_def pbkdf2_returns_keyLen_def)

theorem pin_derivation_deterministic_witness:
  "pbkdf2_Key (sim_lib (replicate 64 7) []) = pbkdf2_Key (sim_lib [] [0, 1])
   \<and> pbkdf2_returns_keyLen (sim_lib (replicate 64 7) [])
   \<and> derive_s3KeyBytes (sim_lib (replicate 64 7) []) ''123456''
     = derive_s3KeyBytes (sim_lib [] [0, 1]) ''123456''
   \<and> length (derive_s3KeyBytes (sim_lib (replicate 64 7) []) ''123456'') = 32
   \<and> derive_pinKey (sim_lib (replicate 64 7) []) ''123456''
     = derive_pinKey (sim_lib [] [0, 1]) ''123456''
   \<and> length (derive_pinKey (sim_lib (replicate 64 7) []) ''123456'') = 32"
proof -
  have same: "pbkdf2_Key (sim_lib (replicate 64 7) []) = pbkdf2_Key (sim_lib [] [0, 1])"
    by (simp add: sim_lib_def)
  have len: "pbkdf2_returns_keyLen (sim_lib (replicate 64 7) [])"
    by (auto simp add: pbkdf2_returns_keyLen_def sim_lib_def min_def)
  from pin_derivation_deterministic [OF same len, of "''123456''"] same len
  show ?thesis by blast
qed

text \<open>
  C9. In \<^verbatim>\<open>performMPCSigning\<close> of the complete demo the key material derived from
  the PIN is computed and never used: with the same share constants, quorum and message,
  the function returns the same result for any two PINs, and whatever the key derivation
  function returns.
\<close>

theorem pin_does_not_influence_signing:
  "performMPCSigning_body (L\<lparr>pbkdf2_Key := kdf\<rparr>) sched s1 s3 pin quorum message
     = performMPCSigning_body L sched s1 s3 pin' quorum message"
proof -
  have "sign_goroutine (L\<lparr>pbkdf2_Key := kdf\<rparr>) = sign_goroutine L"
    by (intro ext) (simp add: sign_goroutine_def Let_def cong: sum.case_cong)
  then have "run_signing (L\<lparr>pbkdf2_Key := kdf\<rparr>) = run_signing L"
    by (intro ext) (simp add: run_signing_def)
  then show ?thesis
    by (simp add: performMPCSigning_body_def Let_def cong: sum.case_cong)
qed




end
